theory Spec2Isabelle
  imports Main
begin

section \<open>Data model\<close>

text \<open>
  The embedding follows the Express routes of the repository: every endpoint is the chain
  of its middleware (authenticate, authorize, the express-validator rules) followed by its
  controller, and the store is the three collections RFP, Response and Document.

  Conventions of the embedding:
  \<^item> an ObjectId is a natural number, handed out by a counter of the store;
  \<^item> a Date is a natural number (milliseconds); each request carries the value that
    \<^verbatim>\<open>new Date()\<close> has while it is handled;
  \<^item> a JS number is an integer that the double format holds; the \<^verbatim>\<open>$inc\<close> of
    response\_count adds as doubles are added (\<open>js_inc\<close>);
  \<^item> a string is a list of characters with codes below 256, one for each UTF-16 code unit;
    strings with other characters are outside the embedding;
  \<^item> a request body carries, for every declared path of the schema, either no key
    (\<open>None\<close>) or a value of the path's type; keys outside the schema, JSON null and
    values that fail casting are outside the embedding;
  \<^item> an optional path of a stored document is \<open>None\<close> when it is undefined;
  \<^item> a response sent with \<^verbatim>\<open>res.status(..).json({error: ..})\<close> and an exception handed
    to \<^verbatim>\<open>next(error)\<close> are both values of the type \<open>error\<close>, and leave the store as
    it was.
\<close>

type_synonym oid = nat
type_synonym time = nat

datatype role = Buyer | Supplier

record user =
  user_id :: oid
  role :: role

datatype error =
    Unauthenticated            (* 401 'Access denied' of authenticate / authorize *)
  | RoleDenied                 (* 403 'Access restricted to ...' of authorize *)
  | ValidationFailed           (* 400 'Validation failed' of handleValidationErrors *)
  | RFPNotFound                (* 404 'RFP not found' *)
  | ResponseNotFound           (* 404 'Response not found' *)
  | DocumentNotFound           (* 404 'Document not found' *)
  | AccessDenied               (* 403 'Access denied' of an ownership check *)
  | CannotUpdateRFP            (* 400 'Cannot update RFP' *)
  | CannotDeleteRFP            (* 400 'Cannot delete RFP' *)
  | CannotPublishRFP           (* 400 'Cannot publish RFP' *)
  | CannotCloseRFP             (* 400 'Cannot close RFP' *)
  | CannotRespondToRFP         (* 400 'Cannot respond to RFP' *)
  | RFPExpired                 (* 400 'RFP expired' *)
  | ResponseAlreadyExists      (* 400 'Response already exists' *)
  | CannotUpdateResponse       (* 400 'Cannot update response' *)
  | CannotDeleteResponse       (* 400 'Cannot delete response' *)
  | CannotSubmitResponse       (* 400 'Cannot submit response' *)
  | CannotReviewResponse       (* 400 'Cannot review response' *)
  | NoFileUploaded             (* 400 'No file uploaded' *)
  | RFPIdRequired              (* 400 'RFP ID required' *)
  | ResponseIdRequired         (* 400 'Response ID required' *)
  | MongooseValidationError    (* ValidationError thrown by save(), passed to next *)
  | DuplicateKeyError          (* E11000 of a unique index, passed to next *)
  | TypeError                  (* property read on null, passed to next *)

subsection \<open>RFP (models/RFP.js)\<close>

datatype rfp_status = Draft | Published | Closed | Cancelled

record rfp =
  rfp_oid :: oid                          (* _id *)
  title :: string
  description :: string
  category :: string
  budget_min :: "int option"
  budget_max :: "int option"
  deadline :: time
  requirements :: "string list"
  evaluation_criteria :: "string list"
  terms_and_conditions :: "string option"
  status :: rfp_status
  created_by :: oid
  published_at :: "time option"
  response_count :: int
  document_ids :: "oid list"
  created_at :: time

text \<open>The body of POST /api/rfps and PUT /api/rfps/:id.\<close>

record rfp_body =
  b_title :: "string option"
  b_description :: "string option"
  b_category :: "string option"
  b_budget_min :: "int option"
  b_budget_max :: "int option"
  b_deadline :: "time option"
  b_requirements :: "string list option"
  b_evaluation_criteria :: "string list option"
  b_terms_and_conditions :: "string option"
  b_status :: "rfp_status option"
  b_created_by :: "oid option"
  b_published_at :: "time option"
  b_response_count :: "int option"
  b_document_ids :: "oid list option"

subsection \<open>Response (models/Response.js)\<close>

datatype response_status = RDraft | Submitted | UnderReview | Approved | Rejected

record response =
  resp_oid :: oid                         (* _id *)
  rfp_id :: oid
  submitted_by :: oid
  proposal :: string
  proposed_budget :: "int option"
  timeline :: "string option"
  methodology :: "string option"
  team_details :: "string option"
  additional_notes :: "string option"
  rstatus :: response_status              (* status *)
  submitted_at :: "time option"
  reviewed_at :: "time option"
  reviewer_notes :: "string option"
  rdocument_ids :: "oid list"             (* document_ids *)

text \<open>The body of POST /api/responses and PUT /api/responses/:id.\<close>

record response_body =
  rb_rfp_id :: "oid option"
  rb_submitted_by :: "oid option"
  rb_proposal :: "string option"
  rb_proposed_budget :: "int option"
  rb_timeline :: "string option"
  rb_methodology :: "string option"
  rb_team_details :: "string option"
  rb_additional_notes :: "string option"
  rb_status :: "response_status option"
  rb_submitted_at :: "time option"
  rb_reviewed_at :: "time option"
  rb_reviewer_notes :: "string option"
  rb_document_ids :: "oid list option"

text \<open>The body of POST /api/responses/:id/review.\<close>

record review_body =
  rv_status :: response_status
  rv_reviewer_notes :: "string option"

subsection \<open>Document (models/Document.js)\<close>

datatype document_type = RfpDocument | ResponseDocument | Attachment

record document =
  doc_oid :: oid                          (* _id *)
  filename :: string
  original_filename :: string
  file_size :: int
  content_type :: string
  doc_type :: document_type               (* document_type *)
  doc_description :: "string option"      (* description *)
  doc_rfp_id :: "oid option"              (* rfp_id *)
  doc_response_id :: "oid option"         (* response_id *)
  uploaded_by :: oid
  file_path :: string

text \<open>What multer leaves in \<^verbatim>\<open>req.file\<close>, and the fields of the multipart body.\<close>

record upload_file =
  f_filename :: string
  f_originalname :: string
  f_size :: int
  f_mimetype :: string
  f_path :: string

record upload_body =
  ub_document_type :: document_type
  ub_description :: "string option"
  ub_rfp_id :: "oid option"
  ub_response_id :: "oid option"

subsection \<open>The store\<close>

record state =
  rfps :: "rfp list"
  responses :: "response list"
  documents :: "document list"
  next_id :: oid

definition init_state :: state where
  "init_state = \<lparr>rfps = [], responses = [], documents = [], next_id = 0\<rparr>"

text \<open>\<^verbatim>\<open>findByIdAndUpdate\<close> and \<^verbatim>\<open>findByIdAndDelete\<close> touch the first matching document.\<close>

fun update_first :: "('a \<Rightarrow> bool) \<Rightarrow> ('a \<Rightarrow> 'a) \<Rightarrow> 'a list \<Rightarrow> 'a list" where
  "update_first P f [] = []"
| "update_first P f (x # xs) = (if P x then f x # xs else x # update_first P f xs)"

fun delete_first :: "('a \<Rightarrow> bool) \<Rightarrow> 'a list \<Rightarrow> 'a list" where
  "delete_first P [] = []"
| "delete_first P (x # xs) = (if P x then xs else x # delete_first P xs)"

definition find_rfp :: "oid \<Rightarrow> state \<Rightarrow> rfp option" where
  "find_rfp i s = find (\<lambda>r. rfp_oid r = i) (rfps s)"

definition find_response :: "oid \<Rightarrow> state \<Rightarrow> response option" where
  "find_response i s = find (\<lambda>r. resp_oid r = i) (responses s)"

definition find_document :: "oid \<Rightarrow> state \<Rightarrow> document option" where
  "find_document i s = find (\<lambda>d. doc_oid d = i) (documents s)"

section \<open>Middleware\<close>

subsection \<open>middleware/auth.js\<close>

definition authenticate :: "user option \<Rightarrow> error + user" where
  "authenticate actor = (case actor of None \<Rightarrow> Inl Unauthenticated | Some u \<Rightarrow> Inr u)"

definition authorize :: "role list \<Rightarrow> user option \<Rightarrow> error + user" where
  "authorize roles actor =
     (case actor of
        None \<Rightarrow> Inl Unauthenticated
      | Some u \<Rightarrow> if role u \<notin> set roles then Inl RoleDenied else Inr u)"

subsection \<open>middleware/validation.js\<close>

text \<open>
  \<^verbatim>\<open>.trim()\<close> of express-validator removes the leading and trailing characters that
  the regular expression \<^verbatim>\<open>\\s\<close> matches, and the trim setter of a mongoose String
  path is \<^verbatim>\<open>String.prototype.trim\<close>. Below code 256 both remove the same seven
  characters: tab, line feed, vertical tab, form feed, carriage return, space and the
  no-break space U+00A0.
\<close>

definition is_space :: "char \<Rightarrow> bool" where
  "is_space c =
     (c \<in> set [CHR '' '', CHR 0x09, CHR 0x0A, CHR 0x0B, CHR 0x0C, CHR 0x0D, CHR 0xA0])"

definition trim :: "string \<Rightarrow> string" where
  "trim s = rev (dropWhile is_space (rev (dropWhile is_space s)))"

text \<open>
  \<^verbatim>\<open>body(f).trim().isLength({min, max})\<close>: a missing field is sanitized to the empty
  string first. \<^verbatim>\<open>body(f).optional().trim().isLength({max})\<close> skips a missing field.
\<close>

definition required_text :: "nat \<Rightarrow> nat \<Rightarrow> string option \<Rightarrow> bool" where
  "required_text lo hi v =
     (let s = (case v of None \<Rightarrow> [] | Some x \<Rightarrow> trim x) in lo \<le> length s \<and> length s \<le> hi)"

definition optional_text :: "nat \<Rightarrow> string option \<Rightarrow> bool" where
  "optional_text hi v = (case v of None \<Rightarrow> True | Some x \<Rightarrow> length (trim x) \<le> hi)"

definition optional_texts :: "nat \<Rightarrow> string list option \<Rightarrow> bool" where
  "optional_texts hi v = (case v of None \<Rightarrow> True | Some xs \<Rightarrow> list_all (\<lambda>x. length (trim x) \<le> hi) xs)"

definition optional_min0 :: "int option \<Rightarrow> bool" where
  "optional_min0 v = (case v of None \<Rightarrow> True | Some x \<Rightarrow> 0 \<le> x)"

text \<open>
  validateRFP. The custom rule of budget\_max reads \<^verbatim>\<open>req.body.budget_min &&
  value < req.body.budget_min\<close>, so a budget\_min of 0 (falsy) is not compared. The rule
  of deadline is not optional. The status rule holds of every value of \<open>rfp_status\<close>.
  On success the body continues with its text fields trimmed.
\<close>

definition budget_max_rule :: "rfp_body \<Rightarrow> bool" where
  "budget_max_rule b =
     (case b_budget_max b of
        None \<Rightarrow> True
      | Some mx \<Rightarrow> 0 \<le> mx \<and>
          (case b_budget_min b of None \<Rightarrow> True | Some mn \<Rightarrow> \<not> (mn \<noteq> 0 \<and> mx < mn)))"

definition deadline_rule :: "time \<Rightarrow> rfp_body \<Rightarrow> bool" where
  "deadline_rule now b = (case b_deadline b of None \<Rightarrow> False | Some d \<Rightarrow> \<not> d \<le> now)"

definition sanitizeRFP :: "rfp_body \<Rightarrow> rfp_body" where
  "sanitizeRFP b =
     b\<lparr>b_title := Some (case b_title b of None \<Rightarrow> [] | Some x \<Rightarrow> trim x),
       b_description := Some (case b_description b of None \<Rightarrow> [] | Some x \<Rightarrow> trim x),
       b_category := Some (case b_category b of None \<Rightarrow> [] | Some x \<Rightarrow> trim x),
       b_requirements := map_option (map trim) (b_requirements b),
       b_evaluation_criteria := map_option (map trim) (b_evaluation_criteria b),
       b_terms_and_conditions := map_option trim (b_terms_and_conditions b)\<rparr>"

definition validateRFP :: "time \<Rightarrow> rfp_body \<Rightarrow> error + rfp_body" where
  "validateRFP now b =
     (if required_text 5 200 (b_title b)
         \<and> required_text 10 5000 (b_description b)
         \<and> required_text 2 100 (b_category b)
         \<and> optional_min0 (b_budget_min b)
         \<and> budget_max_rule b
         \<and> deadline_rule now b
         \<and> optional_texts 500 (b_requirements b)
         \<and> optional_texts 500 (b_evaluation_criteria b)
         \<and> optional_text 10000 (b_terms_and_conditions b)
      then Inr (sanitizeRFP b)
      else Inl ValidationFailed)"

section \<open>RFP\<close>

subsection \<open>The schema: validators and the pre-save hook (models/RFP.js)\<close>

text \<open>
  \<^verbatim>\<open>save()\<close> first validates the document, then runs the schema's own pre-save hook,
  then writes. Validation covers every path that holds a value, loaded or assigned: a
  validator of a path that is undefined is not run, the \<^verbatim>\<open>required\<close> validator apart.
  A required string fails when it is empty.
\<close>

definition budget_min_validator :: "rfp \<Rightarrow> bool" where
  "budget_min_validator r =
     (case budget_min r of
        None \<Rightarrow> True
      | Some v \<Rightarrow> 0 \<le> v \<and>
          (case budget_max r of None \<Rightarrow> True | Some mx \<Rightarrow> mx = 0 \<or> v \<le> mx))"

definition budget_max_validator :: "rfp \<Rightarrow> bool" where
  "budget_max_validator r =
     (case budget_max r of
        None \<Rightarrow> True
      | Some v \<Rightarrow> 0 \<le> v \<and>
          (case budget_min r of None \<Rightarrow> True | Some mn \<Rightarrow> mn = 0 \<or> mn \<le> v))"

definition deadline_validator :: "time \<Rightarrow> rfp \<Rightarrow> bool" where
  "deadline_validator now r = (now < deadline r)"

definition published_at_validator :: "rfp \<Rightarrow> bool" where
  "published_at_validator r =
     (case published_at r of
        None \<Rightarrow> True
      | Some v \<Rightarrow> status r \<noteq> Published \<or> Some v \<noteq> None)"

definition rfp_validate :: "time \<Rightarrow> rfp \<Rightarrow> bool" where
  "rfp_validate now r =
     (title r \<noteq> [] \<and> length (title r) \<le> 200
      \<and> description r \<noteq> [] \<and> length (description r) \<le> 5000
      \<and> category r \<noteq> [] \<and> length (category r) \<le> 100
      \<and> budget_min_validator r
      \<and> budget_max_validator r
      \<and> deadline_validator now r
      \<and> list_all (\<lambda>x. length x \<le> 500) (requirements r)
      \<and> list_all (\<lambda>x. length x \<le> 500) (evaluation_criteria r)
      \<and> (case terms_and_conditions r of None \<Rightarrow> True | Some x \<Rightarrow> length x \<le> 10000)
      \<and> published_at_validator r
      \<and> 0 \<le> response_count r)"

text \<open>
  The hook: \<^verbatim>\<open>isModified('status') && status === 'published' && !published_at\<close>.
  \<open>status_modified\<close> is the value of \<^verbatim>\<open>isModified('status')\<close>.
\<close>

definition rfp_pre_save :: "time \<Rightarrow> bool \<Rightarrow> rfp \<Rightarrow> rfp" where
  "rfp_pre_save now status_modified r =
     (if status_modified \<and> status r = Published \<and> published_at r = None
      then r\<lparr>published_at := Some now\<rparr> else r)"

definition rfp_save :: "time \<Rightarrow> bool \<Rightarrow> rfp \<Rightarrow> error + rfp" where
  "rfp_save now status_modified r =
     (if \<not> rfp_validate now r then Inl MongooseValidationError
      else Inr (rfp_pre_save now status_modified r))"

text \<open>
  \<^verbatim>\<open>Object.assign(rfp, req.body)\<close>: every key of the body is written to the document,
  through the schema's setters (\<^verbatim>\<open>trim: true\<close> on the strings).
\<close>

definition assign_rfp :: "rfp_body \<Rightarrow> rfp \<Rightarrow> rfp" where
  "assign_rfp b r =
     r\<lparr>title := (case b_title b of None \<Rightarrow> title r | Some x \<Rightarrow> trim x),
       description := (case b_description b of None \<Rightarrow> description r | Some x \<Rightarrow> trim x),
       category := (case b_category b of None \<Rightarrow> category r | Some x \<Rightarrow> trim x),
       budget_min := (case b_budget_min b of None \<Rightarrow> budget_min r | Some x \<Rightarrow> Some x),
       budget_max := (case b_budget_max b of None \<Rightarrow> budget_max r | Some x \<Rightarrow> Some x),
       deadline := (case b_deadline b of None \<Rightarrow> deadline r | Some x \<Rightarrow> x),
       requirements := (case b_requirements b of None \<Rightarrow> requirements r | Some x \<Rightarrow> map trim x),
       evaluation_criteria :=
         (case b_evaluation_criteria b of None \<Rightarrow> evaluation_criteria r | Some x \<Rightarrow> map trim x),
       terms_and_conditions :=
         (case b_terms_and_conditions b of None \<Rightarrow> terms_and_conditions r | Some x \<Rightarrow> Some (trim x)),
       status := (case b_status b of None \<Rightarrow> status r | Some x \<Rightarrow> x),
       created_by := (case b_created_by b of None \<Rightarrow> created_by r | Some x \<Rightarrow> x),
       published_at := (case b_published_at b of None \<Rightarrow> published_at r | Some x \<Rightarrow> Some x),
       response_count := (case b_response_count b of None \<Rightarrow> response_count r | Some x \<Rightarrow> x),
       document_ids := (case b_document_ids b of None \<Rightarrow> document_ids r | Some x \<Rightarrow> x)\<rparr>"

subsection \<open>controllers/rfpController.js\<close>

text \<open>
  createRFP: \<^verbatim>\<open>new RFP({...req.body, created_by: req.user._id})\<close> and save. The schema
  defaults are status draft, response\_count 0 and empty arrays; a required path without
  a value fails validation. A status given in the body counts as modified.
\<close>

definition createRFP :: "time \<Rightarrow> user \<Rightarrow> rfp_body \<Rightarrow> state \<Rightarrow> error + state \<times> rfp" where
  "createRFP now u b s =
     (case (b_title b, b_description b, b_category b, b_deadline b) of
        (Some t, Some d, Some c, Some dl) \<Rightarrow>
          (let doc = \<lparr>rfp_oid = next_id s, title = trim t, description = trim d,
                      category = trim c, budget_min = b_budget_min b,
                      budget_max = b_budget_max b, deadline = dl,
                      requirements = (case b_requirements b of None \<Rightarrow> [] | Some x \<Rightarrow> map trim x),
                      evaluation_criteria =
                        (case b_evaluation_criteria b of None \<Rightarrow> [] | Some x \<Rightarrow> map trim x),
                      terms_and_conditions = map_option trim (b_terms_and_conditions b),
                      status = (case b_status b of None \<Rightarrow> Draft | Some x \<Rightarrow> x),
                      created_by = user_id u,
                      published_at = b_published_at b,
                      response_count = (case b_response_count b of None \<Rightarrow> 0 | Some x \<Rightarrow> x),
                      document_ids = (case b_document_ids b of None \<Rightarrow> [] | Some x \<Rightarrow> x),
                      created_at = now\<rparr>
           in case rfp_save now (b_status b \<noteq> None) doc of
                Inl e \<Rightarrow> Inl e
              | Inr doc' \<Rightarrow> Inr (s\<lparr>rfps := rfps s @ [doc'], next_id := Suc (next_id s)\<rparr>, doc'))
      | _ \<Rightarrow> Inl MongooseValidationError)"

definition updateRFP :: "time \<Rightarrow> user \<Rightarrow> oid \<Rightarrow> rfp_body \<Rightarrow> state \<Rightarrow> error + state \<times> rfp" where
  "updateRFP now u i b s =
     (case find_rfp i s of
        None \<Rightarrow> Inl RFPNotFound
      | Some r \<Rightarrow>
          if created_by r \<noteq> user_id u then Inl AccessDenied
          else if status r = Closed \<or> status r = Cancelled then Inl CannotUpdateRFP
          else (let doc = assign_rfp b r
                in case rfp_save now (status doc \<noteq> status r) doc of
                     Inl e \<Rightarrow> Inl e
                   | Inr doc' \<Rightarrow>
                       Inr (s\<lparr>rfps := update_first (\<lambda>x. rfp_oid x = i) (\<lambda>_. doc') (rfps s)\<rparr>, doc')))"

definition deleteRFP :: "user \<Rightarrow> oid \<Rightarrow> state \<Rightarrow> error + state" where
  "deleteRFP u i s =
     (case find_rfp i s of
        None \<Rightarrow> Inl RFPNotFound
      | Some r \<Rightarrow>
          if created_by r \<noteq> user_id u then Inl AccessDenied
          else if status r \<noteq> Draft then Inl CannotDeleteRFP
          else Inr (s\<lparr>rfps := delete_first (\<lambda>x. rfp_oid x = i) (rfps s)\<rparr>))"

definition publishRFP :: "time \<Rightarrow> user \<Rightarrow> oid \<Rightarrow> state \<Rightarrow> error + state \<times> rfp" where
  "publishRFP now u i s =
     (case find_rfp i s of
        None \<Rightarrow> Inl RFPNotFound
      | Some r \<Rightarrow>
          if created_by r \<noteq> user_id u then Inl AccessDenied
          else if status r \<noteq> Draft then Inl CannotPublishRFP
          else (let doc = r\<lparr>status := Published, published_at := Some now\<rparr>
                in case rfp_save now (status doc \<noteq> status r) doc of
                     Inl e \<Rightarrow> Inl e
                   | Inr doc' \<Rightarrow>
                       Inr (s\<lparr>rfps := update_first (\<lambda>x. rfp_oid x = i) (\<lambda>_. doc') (rfps s)\<rparr>, doc')))"

definition closeRFP :: "time \<Rightarrow> user \<Rightarrow> oid \<Rightarrow> state \<Rightarrow> error + state \<times> rfp" where
  "closeRFP now u i s =
     (case find_rfp i s of
        None \<Rightarrow> Inl RFPNotFound
      | Some r \<Rightarrow>
          if created_by r \<noteq> user_id u then Inl AccessDenied
          else if status r \<noteq> Published then Inl CannotCloseRFP
          else (let doc = r\<lparr>status := Closed\<rparr>
                in case rfp_save now (status doc \<noteq> status r) doc of
                     Inl e \<Rightarrow> Inl e
                   | Inr doc' \<Rightarrow>
                       Inr (s\<lparr>rfps := update_first (\<lambda>x. rfp_oid x = i) (\<lambda>_. doc') (rfps s)\<rparr>, doc')))"

text \<open>
  getRFPById: a draft is refused unless the caller is its creator; \<open>actor\<close> is
  \<^verbatim>\<open>req.user\<close>, absent for an anonymous caller (optionalAuth). The query populates
  created\_by, which replaces the id by the user it names, or by null when no user has that
  id. The condition \<^verbatim>\<open>status === 'draft' && (!req.user || created_by._id ... !== ...)\<close>
  is evaluated from the left: for an anonymous caller of a draft the creator is not read,
  for an authenticated caller of a draft \<^verbatim>\<open>rfp.created_by._id\<close> throws a TypeError
  when the creator is null, and for an RFP that is no draft the creator is never read.
  The User collection is written by no route of the embedding (models/User.js is not among
  the sources), so it is a parameter: \<open>users\<close> lists the ids of the stored users.
\<close>

definition getRFPById :: "oid list \<Rightarrow> user option \<Rightarrow> oid \<Rightarrow> state \<Rightarrow> error + rfp" where
  "getRFPById users actor i s =
     (case find_rfp i s of
        None \<Rightarrow> Inl RFPNotFound
      | Some r \<Rightarrow>
          if status r = Draft then
            (case actor of
               None \<Rightarrow> Inl AccessDenied
             | Some u \<Rightarrow>
                 if created_by r \<notin> set users then Inl TypeError
                 else if created_by r \<noteq> user_id u then Inl AccessDenied
                 else Inr r)
          else Inr r)"

text \<open>
  getAllRFPs. The filter object is built key by key, a later assignment of a key replacing
  an earlier one: for a supplier the status of the query is replaced by published and the
  deadline must lie after now. An empty query string is falsy. \<open>re_test p x\<close> stands for
  \<^verbatim>\<open>new RegExp(p, 'i')\<close> matching \<open>x\<close>. \<^verbatim>\<open>parseInt(..) || d\<close> takes the default for a
  missing value and for 0.
\<close>

record rfp_query =
  q_status :: "rfp_status option"
  q_category :: "string option"
  q_search :: "string option"
  q_my_rfps :: "string option"
  q_page :: "nat option"
  q_limit :: "nat option"

definition rfp_filter ::
  "(string \<Rightarrow> string \<Rightarrow> bool) \<Rightarrow> time \<Rightarrow> user option \<Rightarrow> rfp_query \<Rightarrow> rfp \<Rightarrow> bool" where
  "rfp_filter re_test now actor q r =
     (let supplier = (case actor of None \<Rightarrow> False | Some u \<Rightarrow> role u = Supplier)
      in (if supplier then status r = Published
          else (case q_status q of None \<Rightarrow> True | Some st \<Rightarrow> status r = st))
         \<and> (case q_category q of
               None \<Rightarrow> True
             | Some c \<Rightarrow> c = [] \<or> re_test c (category r))
         \<and> (case q_search q of
               None \<Rightarrow> True
             | Some x \<Rightarrow> x = [] \<or> re_test x (title r) \<or> re_test x (description r))
         \<and> (supplier \<longrightarrow> now < deadline r)
         \<and> (case actor of
               None \<Rightarrow> True
             | Some u \<Rightarrow> role u = Buyer \<and> q_my_rfps q = Some ''true'' \<longrightarrow> created_by r = user_id u))"

definition or_default :: "nat option \<Rightarrow> nat \<Rightarrow> nat" where
  "or_default v d = (case v of None \<Rightarrow> d | Some n \<Rightarrow> if n = 0 then d else n)"

definition getAllRFPs ::
  "(string \<Rightarrow> string \<Rightarrow> bool) \<Rightarrow> time \<Rightarrow> user option \<Rightarrow> rfp_query \<Rightarrow> state \<Rightarrow> rfp list \<times> nat" where
  "getAllRFPs re_test now actor q s =
     (let page = or_default (q_page q) 1;
          limit = or_default (q_limit q) 10;
          skip = (page - 1) * limit;
          found = filter (rfp_filter re_test now actor q) (rfps s)
      in (take limit (drop skip (rev (sort_key created_at found))), length found))"

text \<open>The routes of routes/rfp.js: the middleware chain, then the controller.\<close>

definition validatePagination :: "rfp_query \<Rightarrow> bool" where
  "validatePagination q =
     ((case q_page q of None \<Rightarrow> True | Some p \<Rightarrow> 1 \<le> p)
      \<and> (case q_limit q of None \<Rightarrow> True | Some l \<Rightarrow> 1 \<le> l \<and> l \<le> 100))"

definition route_getAllRFPs ::
  "(string \<Rightarrow> string \<Rightarrow> bool) \<Rightarrow> time \<Rightarrow> user option \<Rightarrow> rfp_query \<Rightarrow> state \<Rightarrow> error + rfp list \<times> nat" where
  "route_getAllRFPs re_test now actor q s =
     (if \<not> validatePagination q then Inl ValidationFailed
      else Inr (getAllRFPs re_test now actor q s))"

definition route_createRFP ::
  "time \<Rightarrow> user option \<Rightarrow> rfp_body \<Rightarrow> state \<Rightarrow> error + state \<times> rfp" where
  "route_createRFP now actor b s =
     (case authorize [Buyer] actor of
        Inl e \<Rightarrow> Inl e
      | Inr u \<Rightarrow> (case validateRFP now b of Inl e \<Rightarrow> Inl e | Inr b' \<Rightarrow> createRFP now u b' s))"

definition route_updateRFP ::
  "time \<Rightarrow> user option \<Rightarrow> oid \<Rightarrow> rfp_body \<Rightarrow> state \<Rightarrow> error + state \<times> rfp" where
  "route_updateRFP now actor i b s =
     (case authorize [Buyer] actor of
        Inl e \<Rightarrow> Inl e
      | Inr u \<Rightarrow> (case validateRFP now b of Inl e \<Rightarrow> Inl e | Inr b' \<Rightarrow> updateRFP now u i b' s))"

definition route_deleteRFP :: "user option \<Rightarrow> oid \<Rightarrow> state \<Rightarrow> error + state" where
  "route_deleteRFP actor i s =
     (case authorize [Buyer] actor of Inl e \<Rightarrow> Inl e | Inr u \<Rightarrow> deleteRFP u i s)"

definition route_publishRFP :: "time \<Rightarrow> user option \<Rightarrow> oid \<Rightarrow> state \<Rightarrow> error + state \<times> rfp" where
  "route_publishRFP now actor i s =
     (case authorize [Buyer] actor of Inl e \<Rightarrow> Inl e | Inr u \<Rightarrow> publishRFP now u i s)"

definition route_closeRFP :: "time \<Rightarrow> user option \<Rightarrow> oid \<Rightarrow> state \<Rightarrow> error + state \<times> rfp" where
  "route_closeRFP now actor i s =
     (case authorize [Buyer] actor of Inl e \<Rightarrow> Inl e | Inr u \<Rightarrow> closeRFP now u i s)"

section \<open>Response\<close>

subsection \<open>validateResponse (middleware/validation.js)\<close>

text \<open>
  The proposal rule is not optional; the status rule holds of every value of
  \<open>response_status\<close>. On success the body continues with its text fields trimmed.
\<close>

definition sanitizeResponse :: "response_body \<Rightarrow> response_body" where
  "sanitizeResponse b =
     b\<lparr>rb_proposal := Some (case rb_proposal b of None \<Rightarrow> [] | Some x \<Rightarrow> trim x),
       rb_timeline := map_option trim (rb_timeline b),
       rb_methodology := map_option trim (rb_methodology b),
       rb_team_details := map_option trim (rb_team_details b),
       rb_additional_notes := map_option trim (rb_additional_notes b)\<rparr>"

definition validateResponse_rules :: "response_body \<Rightarrow> bool" where
  "validateResponse_rules b =
     (required_text 10 10000 (rb_proposal b)
      \<and> optional_min0 (rb_proposed_budget b)
      \<and> optional_text 1000 (rb_timeline b)
      \<and> optional_text 5000 (rb_methodology b)
      \<and> optional_text 3000 (rb_team_details b)
      \<and> optional_text 2000 (rb_additional_notes b))"

definition validateResponse :: "response_body \<Rightarrow> error + response_body" where
  "validateResponse b =
     (if validateResponse_rules b then Inr (sanitizeResponse b) else Inl ValidationFailed)"

subsection \<open>The schema: validators, the unique index and the pre-save hook (models/Response.js)\<close>

definition submitted_at_validator :: "response \<Rightarrow> bool" where
  "submitted_at_validator r =
     (case submitted_at r of
        None \<Rightarrow> True
      | Some v \<Rightarrow> rstatus r = RDraft \<or> Some v \<noteq> None)"

definition reviewed_at_validator :: "response \<Rightarrow> bool" where
  "reviewed_at_validator r =
     (case reviewed_at r of
        None \<Rightarrow> True
      | Some v \<Rightarrow> \<not> (rstatus r \<in> set [Approved, Rejected]) \<or> Some v \<noteq> None)"

definition max_length :: "nat \<Rightarrow> string option \<Rightarrow> bool" where
  "max_length n v = (case v of None \<Rightarrow> True | Some x \<Rightarrow> length x \<le> n)"

definition response_validate :: "response \<Rightarrow> bool" where
  "response_validate r =
     (proposal r \<noteq> [] \<and> length (proposal r) \<le> 10000
      \<and> optional_min0 (proposed_budget r)
      \<and> max_length 1000 (timeline r)
      \<and> max_length 5000 (methodology r)
      \<and> max_length 3000 (team_details r)
      \<and> max_length 2000 (additional_notes r)
      \<and> submitted_at_validator r
      \<and> reviewed_at_validator r
      \<and> max_length 2000 (reviewer_notes r))"

text \<open>
  The hook stamps submitted\_at when the status was modified, is not draft and no
  submitted\_at is there, and reviewed\_at when the status was modified, is approved or
  rejected and no reviewed\_at is there.
\<close>

definition response_pre_save :: "time \<Rightarrow> bool \<Rightarrow> response \<Rightarrow> response" where
  "response_pre_save now status_modified r =
     (let r1 = (if status_modified \<and> rstatus r \<noteq> RDraft \<and> submitted_at r = None
                then r\<lparr>submitted_at := Some now\<rparr> else r)
      in if status_modified \<and> rstatus r1 \<in> set [Approved, Rejected] \<and> reviewed_at r1 = None
         then r1\<lparr>reviewed_at := Some now\<rparr> else r1)"

text \<open>
  The unique index on (rfp\_id, submitted\_by): a write that inserts a document, or changes
  one of the two keys, fails when another document holds the same pair.
\<close>

definition index_clash :: "response \<Rightarrow> response list \<Rightarrow> bool" where
  "index_clash r others =
     list_ex (\<lambda>x. resp_oid x \<noteq> resp_oid r \<and> rfp_id x = rfp_id r \<and> submitted_by x = submitted_by r)
       others"

definition response_save ::
  "time \<Rightarrow> bool \<Rightarrow> bool \<Rightarrow> response \<Rightarrow> response list \<Rightarrow> error + response" where
  "response_save now status_modified keys_written r others =
     (if \<not> response_validate r then Inl MongooseValidationError
      else (let r' = response_pre_save now status_modified r
            in if keys_written \<and> index_clash r' others then Inl DuplicateKeyError else Inr r'))"

definition assign_response :: "response_body \<Rightarrow> response \<Rightarrow> response" where
  "assign_response b r =
     r\<lparr>rfp_id := (case rb_rfp_id b of None \<Rightarrow> rfp_id r | Some x \<Rightarrow> x),
       submitted_by := (case rb_submitted_by b of None \<Rightarrow> submitted_by r | Some x \<Rightarrow> x),
       proposal := (case rb_proposal b of None \<Rightarrow> proposal r | Some x \<Rightarrow> trim x),
       proposed_budget :=
         (case rb_proposed_budget b of None \<Rightarrow> proposed_budget r | Some x \<Rightarrow> Some x),
       timeline := (case rb_timeline b of None \<Rightarrow> timeline r | Some x \<Rightarrow> Some (trim x)),
       methodology := (case rb_methodology b of None \<Rightarrow> methodology r | Some x \<Rightarrow> Some (trim x)),
       team_details :=
         (case rb_team_details b of None \<Rightarrow> team_details r | Some x \<Rightarrow> Some (trim x)),
       additional_notes :=
         (case rb_additional_notes b of None \<Rightarrow> additional_notes r | Some x \<Rightarrow> Some (trim x)),
       rstatus := (case rb_status b of None \<Rightarrow> rstatus r | Some x \<Rightarrow> x),
       submitted_at := (case rb_submitted_at b of None \<Rightarrow> submitted_at r | Some x \<Rightarrow> Some x),
       reviewed_at := (case rb_reviewed_at b of None \<Rightarrow> reviewed_at r | Some x \<Rightarrow> Some x),
       reviewer_notes :=
         (case rb_reviewer_notes b of None \<Rightarrow> reviewer_notes r | Some x \<Rightarrow> Some (trim x)),
       rdocument_ids := (case rb_document_ids b of None \<Rightarrow> rdocument_ids r | Some x \<Rightarrow> x)\<rparr>"

subsection \<open>controllers/responseController.js\<close>

text \<open>
  \<^verbatim>\<open>RFP.findByIdAndUpdate(id, {$inc: {response_count: 1}})\<close>: no validation, no hook.
  response\_count is a Number, which createRFP and updateRFP copy from the body, and
  \<^verbatim>\<open>$inc\<close> adds 1 to it as doubles are added: the sum is rounded to the nearest double,
  a tie to the one with the even significand. Every integer of magnitude at most \<open>2 ^ 53\<close>
  is a double, so the sum is exact from \<open>- (2 ^ 53)\<close> up to \<open>2 ^ 53 - 1\<close>. Between
  \<open>2 ^ 53\<close> and \<open>2 ^ 54\<close> in magnitude the doubles are the even integers \<open>2 * m\<close>: the sum
  lies halfway between \<open>2 * m\<close> and \<open>2 * m + 2\<close> and is rounded to \<open>2 * m\<close> when \<open>m\<close> is
  even (so \<open>2 ^ 53\<close> stays \<open>2 ^ 53\<close>) and to \<open>2 * m + 2\<close> when \<open>m\<close> is odd. From \<open>2 ^ 54\<close>
  on in magnitude the sum is rounded back to the number itself: the doubles are 4 or more
  apart there, and at \<open>- (2 ^ 54)\<close> the tie with \<open>- (2 ^ 54) + 2\<close> goes to \<open>- (2 ^ 54)\<close>.
  Where MongoDB holds the counter as an integer of 32 or 64 bits rather than as a double,
  the sum is exact, which agrees with \<open>js_inc\<close> from \<open>- (2 ^ 53)\<close> up to \<open>2 ^ 53 - 1\<close>;
  what is stated below about the value of a raised counter is stated for that range.
\<close>

definition js_inc :: "int \<Rightarrow> int" where
  "js_inc x =
     (if - (2 ^ 53) \<le> x \<and> x < 2 ^ 53 then x + 1
      else if \<bar>x\<bar> < 2 ^ 54 \<and> odd (x div 2) then x + 2
      else x)"

definition inc_response_count :: "oid \<Rightarrow> state \<Rightarrow> state" where
  "inc_response_count i s =
     s\<lparr>rfps := update_first (\<lambda>x. rfp_oid x = i)
                 (\<lambda>x. x\<lparr>response_count := js_inc (response_count x)\<rparr>) (rfps s)\<rparr>"

definition createResponse ::
  "time \<Rightarrow> user \<Rightarrow> response_body \<Rightarrow> state \<Rightarrow> error + state \<times> response" where
  "createResponse now u b s =
     (case rb_rfp_id b of
        None \<Rightarrow> Inl RFPNotFound
      | Some rid \<Rightarrow>
     (case find_rfp rid s of
        None \<Rightarrow> Inl RFPNotFound
      | Some rfp \<Rightarrow>
          if status rfp \<noteq> Published then Inl CannotRespondToRFP
          else if deadline rfp < now then Inl RFPExpired
          else if list_ex (\<lambda>x. rfp_id x = rid \<and> submitted_by x = user_id u) (responses s)
          then Inl ResponseAlreadyExists
          else
     (case rb_proposal b of
        None \<Rightarrow> Inl MongooseValidationError
      | Some p \<Rightarrow>
          (let doc = \<lparr>resp_oid = next_id s, rfp_id = rid, submitted_by = user_id u,
                      proposal = trim p, proposed_budget = rb_proposed_budget b,
                      timeline = map_option trim (rb_timeline b),
                      methodology = map_option trim (rb_methodology b),
                      team_details = map_option trim (rb_team_details b),
                      additional_notes = map_option trim (rb_additional_notes b),
                      rstatus = (case rb_status b of None \<Rightarrow> RDraft | Some x \<Rightarrow> x),
                      submitted_at = rb_submitted_at b,
                      reviewed_at = rb_reviewed_at b,
                      reviewer_notes = map_option trim (rb_reviewer_notes b),
                      rdocument_ids = (case rb_document_ids b of None \<Rightarrow> [] | Some x \<Rightarrow> x)\<rparr>
           in case response_save now (rb_status b \<noteq> None) True doc (responses s) of
                Inl e \<Rightarrow> Inl e
              | Inr doc' \<Rightarrow>
                  (let s1 = s\<lparr>responses := responses s @ [doc'], next_id := Suc (next_id s)\<rparr>;
                       s2 = (if rstatus doc' = Submitted then inc_response_count rid s1 else s1)
                   in Inr (s2, doc'))))))"

text \<open>
  updateResponse, submitResponse and reviewResponse load the response with its RFP
  populated; reading a property of a parent that no longer exists throws.
\<close>

definition updateResponse ::
  "time \<Rightarrow> user \<Rightarrow> oid \<Rightarrow> response_body \<Rightarrow> state \<Rightarrow> error + state \<times> response" where
  "updateResponse now u i b s =
     (case find_response i s of
        None \<Rightarrow> Inl ResponseNotFound
      | Some r \<Rightarrow>
          if submitted_by r \<noteq> user_id u then Inl AccessDenied
          else if rstatus r \<in> set [Approved, Rejected] then Inl CannotUpdateResponse
          else
     (case find_rfp (rfp_id r) s of
        None \<Rightarrow> Inl TypeError
      | Some rfp \<Rightarrow>
          if deadline rfp < now then Inl RFPExpired
          else (let oldStatus = rstatus r;
                    doc = assign_response b r
                in case response_save now (rstatus doc \<noteq> rstatus r)
                          (rfp_id doc \<noteq> rfp_id r \<or> submitted_by doc \<noteq> submitted_by r)
                          doc (responses s) of
                     Inl e \<Rightarrow> Inl e
                   | Inr doc' \<Rightarrow>
                       (let s1 = s\<lparr>responses :=
                                    update_first (\<lambda>x. resp_oid x = i) (\<lambda>_. doc') (responses s)\<rparr>;
                            s2 = (if oldStatus = RDraft \<and> rstatus doc' = Submitted
                                  then inc_response_count (rfp_id doc') s1 else s1)
                        in Inr (s2, doc')))))"

definition deleteResponse :: "user \<Rightarrow> oid \<Rightarrow> state \<Rightarrow> error + state" where
  "deleteResponse u i s =
     (case find_response i s of
        None \<Rightarrow> Inl ResponseNotFound
      | Some r \<Rightarrow>
          if submitted_by r \<noteq> user_id u then Inl AccessDenied
          else if rstatus r \<noteq> RDraft then Inl CannotDeleteResponse
          else Inr (s\<lparr>responses := delete_first (\<lambda>x. resp_oid x = i) (responses s)\<rparr>))"

definition submitResponse :: "time \<Rightarrow> user \<Rightarrow> oid \<Rightarrow> state \<Rightarrow> error + state \<times> response" where
  "submitResponse now u i s =
     (case find_response i s of
        None \<Rightarrow> Inl ResponseNotFound
      | Some r \<Rightarrow>
          if submitted_by r \<noteq> user_id u then Inl AccessDenied
          else if rstatus r \<noteq> RDraft then Inl CannotSubmitResponse
          else
     (case find_rfp (rfp_id r) s of
        None \<Rightarrow> Inl TypeError
      | Some rfp \<Rightarrow>
          if deadline rfp < now then Inl RFPExpired
          else (let doc = r\<lparr>rstatus := Submitted, submitted_at := Some now\<rparr>
                in case response_save now (rstatus doc \<noteq> rstatus r) False doc (responses s) of
                     Inl e \<Rightarrow> Inl e
                   | Inr doc' \<Rightarrow>
                       (let s1 = s\<lparr>responses :=
                                    update_first (\<lambda>x. resp_oid x = i) (\<lambda>_. doc') (responses s)\<rparr>
                        in Inr (inc_response_count (rfp_id doc') s1, doc')))))"

definition reviewResponse ::
  "time \<Rightarrow> user \<Rightarrow> oid \<Rightarrow> review_body \<Rightarrow> state \<Rightarrow> error + state \<times> response" where
  "reviewResponse now u i b s =
     (case find_response i s of
        None \<Rightarrow> Inl ResponseNotFound
      | Some r \<Rightarrow>
     (case find_rfp (rfp_id r) s of
        None \<Rightarrow> Inl TypeError
      | Some rfp \<Rightarrow>
          if created_by rfp \<noteq> user_id u then Inl AccessDenied
          else if \<not> (rstatus r \<in> set [Submitted, UnderReview]) then Inl CannotReviewResponse
          else (let doc = r\<lparr>rstatus := rv_status b,
                            reviewer_notes := map_option trim (rv_reviewer_notes b),
                            reviewed_at := Some now\<rparr>
                in case response_save now (rstatus doc \<noteq> rstatus r) False doc (responses s) of
                     Inl e \<Rightarrow> Inl e
                   | Inr doc' \<Rightarrow>
                       Inr (s\<lparr>responses :=
                              update_first (\<lambda>x. resp_oid x = i) (\<lambda>_. doc') (responses s)\<rparr>, doc'))))"

text \<open>The routes of routes/response.js.\<close>

definition route_createResponse ::
  "time \<Rightarrow> user option \<Rightarrow> response_body \<Rightarrow> state \<Rightarrow> error + state \<times> response" where
  "route_createResponse now actor b s =
     (case authorize [Supplier] actor of
        Inl e \<Rightarrow> Inl e
      | Inr u \<Rightarrow>
          if rb_rfp_id b = None then Inl ValidationFailed
          else (case validateResponse b of Inl e \<Rightarrow> Inl e | Inr b' \<Rightarrow> createResponse now u b' s))"

definition route_updateResponse ::
  "time \<Rightarrow> user option \<Rightarrow> oid \<Rightarrow> response_body \<Rightarrow> state \<Rightarrow> error + state \<times> response" where
  "route_updateResponse now actor i b s =
     (case authorize [Supplier] actor of
        Inl e \<Rightarrow> Inl e
      | Inr u \<Rightarrow>
          (case validateResponse b of Inl e \<Rightarrow> Inl e | Inr b' \<Rightarrow> updateResponse now u i b' s))"

definition route_deleteResponse :: "user option \<Rightarrow> oid \<Rightarrow> state \<Rightarrow> error + state" where
  "route_deleteResponse actor i s =
     (case authorize [Supplier] actor of Inl e \<Rightarrow> Inl e | Inr u \<Rightarrow> deleteResponse u i s)"

definition route_submitResponse ::
  "time \<Rightarrow> user option \<Rightarrow> oid \<Rightarrow> state \<Rightarrow> error + state \<times> response" where
  "route_submitResponse now actor i s =
     (case authorize [Supplier] actor of Inl e \<Rightarrow> Inl e | Inr u \<Rightarrow> submitResponse now u i s)"

definition route_reviewResponse ::
  "time \<Rightarrow> user option \<Rightarrow> oid \<Rightarrow> review_body \<Rightarrow> state \<Rightarrow> error + state \<times> response" where
  "route_reviewResponse now actor i b s =
     (case authorize [Buyer] actor of
        Inl e \<Rightarrow> Inl e
      | Inr u \<Rightarrow>
          if \<not> (rv_status b \<in> set [Approved, Rejected, UnderReview]
                \<and> optional_text 2000 (rv_reviewer_notes b))
          then Inl ValidationFailed
          else reviewResponse now u i (b\<lparr>rv_reviewer_notes := map_option trim (rv_reviewer_notes b)\<rparr>) s)"

section \<open>Document\<close>

subsection \<open>controllers/documentController.js\<close>

text \<open>
  The schema of models/Document.js: the four strings and the size are required, the size
  is not negative, the description has at most 500 characters. The validators of rfp\_id
  and response\_id run only on a value that is there, where they hold.
\<close>

definition document_validate :: "document \<Rightarrow> bool" where
  "document_validate d =
     (filename d \<noteq> [] \<and> original_filename d \<noteq> [] \<and> content_type d \<noteq> []
      \<and> file_path d \<noteq> [] \<and> 0 \<le> file_size d
      \<and> max_length 500 (doc_description d)
      \<and> (case doc_rfp_id d of None \<Rightarrow> True | Some v \<Rightarrow> doc_type d \<noteq> RfpDocument \<or> Some v \<noteq> None)
      \<and> (case doc_response_id d of
            None \<Rightarrow> True
          | Some v \<Rightarrow> doc_type d \<noteq> ResponseDocument \<or> Some v \<noteq> None))"

definition check_rfp_access :: "user \<Rightarrow> oid option \<Rightarrow> state \<Rightarrow> error option" where
  "check_rfp_access u rid s =
     (case rid of
        None \<Rightarrow> None
      | Some i \<Rightarrow>
          (case find_rfp i s of
             None \<Rightarrow> Some RFPNotFound
           | Some r \<Rightarrow> if created_by r \<noteq> user_id u then Some AccessDenied else None))"

definition check_response_access :: "user \<Rightarrow> oid option \<Rightarrow> state \<Rightarrow> error option" where
  "check_response_access u rid s =
     (case rid of
        None \<Rightarrow> None
      | Some i \<Rightarrow>
          (case find_response i s of
             None \<Rightarrow> Some ResponseNotFound
           | Some r \<Rightarrow> if submitted_by r \<noteq> user_id u then Some AccessDenied else None))"

text \<open>\<^verbatim>\<open>$push\<close> and \<^verbatim>\<open>$pull\<close> on the document\_ids of the parent.\<close>

definition push_rfp_document :: "oid option \<Rightarrow> oid \<Rightarrow> state \<Rightarrow> state" where
  "push_rfp_document rid d s =
     (case rid of
        None \<Rightarrow> s
      | Some i \<Rightarrow>
          s\<lparr>rfps := update_first (\<lambda>x. rfp_oid x = i)
                      (\<lambda>x. x\<lparr>document_ids := document_ids x @ [d]\<rparr>) (rfps s)\<rparr>)"

definition push_response_document :: "oid option \<Rightarrow> oid \<Rightarrow> state \<Rightarrow> state" where
  "push_response_document rid d s =
     (case rid of
        None \<Rightarrow> s
      | Some i \<Rightarrow>
          s\<lparr>responses := update_first (\<lambda>x. resp_oid x = i)
                           (\<lambda>x. x\<lparr>rdocument_ids := rdocument_ids x @ [d]\<rparr>) (responses s)\<rparr>)"

definition pull_rfp_document :: "oid option \<Rightarrow> oid \<Rightarrow> state \<Rightarrow> state" where
  "pull_rfp_document rid d s =
     (case rid of
        None \<Rightarrow> s
      | Some i \<Rightarrow>
          s\<lparr>rfps := update_first (\<lambda>x. rfp_oid x = i)
                      (\<lambda>x. x\<lparr>document_ids := removeAll d (document_ids x)\<rparr>) (rfps s)\<rparr>)"

definition pull_response_document :: "oid option \<Rightarrow> oid \<Rightarrow> state \<Rightarrow> state" where
  "pull_response_document rid d s =
     (case rid of
        None \<Rightarrow> s
      | Some i \<Rightarrow>
          s\<lparr>responses := update_first (\<lambda>x. resp_oid x = i)
                           (\<lambda>x. x\<lparr>rdocument_ids := removeAll d (rdocument_ids x)\<rparr>) (responses s)\<rparr>)"

definition uploadDocument ::
  "user \<Rightarrow> upload_file option \<Rightarrow> upload_body \<Rightarrow> state \<Rightarrow> error + state \<times> document" where
  "uploadDocument u file b s =
     (case file of
        None \<Rightarrow> Inl NoFileUploaded
      | Some f \<Rightarrow>
          if ub_document_type b = RfpDocument \<and> ub_rfp_id b = None then Inl RFPIdRequired
          else if ub_document_type b = ResponseDocument \<and> ub_response_id b = None
          then Inl ResponseIdRequired
          else
     (case check_rfp_access u (ub_rfp_id b) s of
        Some e \<Rightarrow> Inl e
      | None \<Rightarrow>
     (case check_response_access u (ub_response_id b) s of
        Some e \<Rightarrow> Inl e
      | None \<Rightarrow>
          (let doc = \<lparr>doc_oid = next_id s, filename = trim (f_filename f),
                      original_filename = trim (f_originalname f), file_size = f_size f,
                      content_type = trim (f_mimetype f),
                      doc_type = ub_document_type b,
                      doc_description = map_option trim (ub_description b),
                      doc_rfp_id = ub_rfp_id b, doc_response_id = ub_response_id b,
                      uploaded_by = user_id u, file_path = trim (f_path f)\<rparr>
           in if \<not> document_validate doc then Inl MongooseValidationError
              else (let s1 = s\<lparr>documents := documents s @ [doc], next_id := Suc (next_id s)\<rparr>;
                        s2 = push_rfp_document (ub_rfp_id b) (doc_oid doc) s1;
                        s3 = push_response_document (ub_response_id b) (doc_oid doc) s2
                    in Inr (s3, doc))))))"

definition deleteDocument :: "user \<Rightarrow> oid \<Rightarrow> state \<Rightarrow> error + state" where
  "deleteDocument u i s =
     (case find_document i s of
        None \<Rightarrow> Inl DocumentNotFound
      | Some d \<Rightarrow>
          if uploaded_by d \<noteq> user_id u then Inl AccessDenied
          else (let s1 = pull_rfp_document (doc_rfp_id d) (doc_oid d) s;
                    s2 = pull_response_document (doc_response_id d) (doc_oid d) s1
                in Inr (s2\<lparr>documents := delete_first (\<lambda>x. doc_oid x = i) (documents s2)\<rparr>)))"

text \<open>
  The routes of routes/document.js. The file is what multer hands over; the rule of
  document\_type holds of every value of \<open>document_type\<close>.
\<close>

definition route_uploadDocument ::
  "user option \<Rightarrow> upload_file option \<Rightarrow> upload_body \<Rightarrow> state \<Rightarrow> error + state \<times> document" where
  "route_uploadDocument actor file b s =
     (case authenticate actor of
        Inl e \<Rightarrow> Inl e
      | Inr u \<Rightarrow>
          if \<not> optional_text 500 (ub_description b) then Inl ValidationFailed
          else uploadDocument u file (b\<lparr>ub_description := map_option trim (ub_description b)\<rparr>) s)"

definition route_deleteDocument :: "user option \<Rightarrow> oid \<Rightarrow> state \<Rightarrow> error + state" where
  "route_deleteDocument actor i s =
     (case authenticate actor of Inl e \<Rightarrow> Inl e | Inr u \<Rightarrow> deleteDocument u i s)"

section \<open>The exposed operations as a transition system\<close>

datatype action =
    CreateRFP rfp_body
  | UpdateRFP oid rfp_body
  | DeleteRFP oid
  | PublishRFP oid
  | CloseRFP oid
  | CreateResponse response_body
  | UpdateResponse oid response_body
  | DeleteResponse oid
  | SubmitResponse oid
  | ReviewResponse oid review_body
  | UploadDocument "upload_file option" upload_body
  | DeleteDocument oid

fun exec :: "time \<Rightarrow> user option \<Rightarrow> action \<Rightarrow> state \<Rightarrow> error + state" where
  "exec now actor (CreateRFP b) s = map_sum id fst (route_createRFP now actor b s)"
| "exec now actor (UpdateRFP i b) s = map_sum id fst (route_updateRFP now actor i b s)"
| "exec now actor (DeleteRFP i) s = route_deleteRFP actor i s"
| "exec now actor (PublishRFP i) s = map_sum id fst (route_publishRFP now actor i s)"
| "exec now actor (CloseRFP i) s = map_sum id fst (route_closeRFP now actor i s)"
| "exec now actor (CreateResponse b) s = map_sum id fst (route_createResponse now actor b s)"
| "exec now actor (UpdateResponse i b) s = map_sum id fst (route_updateResponse now actor i b s)"
| "exec now actor (DeleteResponse i) s = route_deleteResponse actor i s"
| "exec now actor (SubmitResponse i) s = map_sum id fst (route_submitResponse now actor i s)"
| "exec now actor (ReviewResponse i b) s = map_sum id fst (route_reviewResponse now actor i b s)"
| "exec now actor (UploadDocument f b) s = map_sum id fst (route_uploadDocument actor f b s)"
| "exec now actor (DeleteDocument i) s = route_deleteDocument actor i s"

text \<open>A request that fails leaves the store as it was.\<close>

definition step :: "time \<Rightarrow> user option \<Rightarrow> action \<Rightarrow> state \<Rightarrow> state" where
  "step now actor a s = (case exec now actor a s of Inl e \<Rightarrow> s | Inr s' \<Rightarrow> s')"

fun run :: "(time \<times> user option \<times> action) list \<Rightarrow> state \<Rightarrow> state" where
  "run [] s = s"
| "run ((now, actor, a) # rest) s = run rest (step now actor a s)"

section \<open>Scenarios\<close>

text \<open>
  Concrete users, bodies and stores, reached from the empty store through the routes. They
  are the inputs at which the properties below are evaluated.
\<close>

definition buyer1 :: user where
  "buyer1 = \<lparr>user_id = 1, role = Buyer\<rparr>"

definition supplier1 :: user where
  "supplier1 = \<lparr>user_id = 2, role = Supplier\<rparr>"

definition rfp_body0 :: rfp_body where
  "rfp_body0 =
     \<lparr>b_title = Some ''Website build'', b_description = Some ''A modern website'',
      b_category = Some ''Web'', b_budget_min = None, b_budget_max = None,
      b_deadline = Some 1000, b_requirements = None, b_evaluation_criteria = None,
      b_terms_and_conditions = None, b_status = None, b_created_by = None,
      b_published_at = None, b_response_count = None, b_document_ids = None\<rparr>"

definition response_body0 :: response_body where
  "response_body0 =
     \<lparr>rb_rfp_id = Some 0, rb_submitted_by = None, rb_proposal = Some ''We can deliver it'',
      rb_proposed_budget = None, rb_timeline = None, rb_methodology = None,
      rb_team_details = None, rb_additional_notes = None, rb_status = None,
      rb_submitted_at = None, rb_reviewed_at = None, rb_reviewer_notes = None,
      rb_document_ids = None\<rparr>"


definition file0 :: upload_file where
  "file0 = \<lparr>f_filename = ''a1-17.pdf'', f_originalname = ''terms.pdf'', f_size = 2048,
             f_mimetype = ''application/pdf'', f_path = ''uploads/a1-17.pdf''\<rparr>"

text \<open>The RFP of \<open>rfp_body0\<close> as createRFP stores it at time 10 for \<open>buyer1\<close>.\<close>

definition rfp0 :: rfp where
  "rfp0 =
     \<lparr>rfp_oid = 0, title = ''Website build'', description = ''A modern website'',
      category = ''Web'', budget_min = None, budget_max = None, deadline = 1000,
      requirements = [], evaluation_criteria = [], terms_and_conditions = None,
      status = Draft, created_by = 1, published_at = None, response_count = 0,
      document_ids = [], created_at = 10\<rparr>"

text \<open>The response of \<open>response_body0\<close> as createResponse stores it for \<open>supplier1\<close>.\<close>

definition response1 :: response where
  "response1 =
     \<lparr>resp_oid = 1, rfp_id = 0, submitted_by = 2, proposal = ''We can deliver it'',
      proposed_budget = None, timeline = None, methodology = None, team_details = None,
      additional_notes = None, rstatus = RDraft, submitted_at = None, reviewed_at = None,
      reviewer_notes = None, rdocument_ids = []\<rparr>"

definition st_draft :: state where
  "st_draft = run [(10, Some buyer1, CreateRFP rfp_body0)] init_state"

definition st_published :: state where
  "st_published = run [(20, Some buyer1, PublishRFP 0)] st_draft"

definition st_response :: state where
  "st_response = run [(30, Some supplier1, CreateResponse response_body0)] st_published"

definition st_submitted :: state where
  "st_submitted = run [(40, Some supplier1, SubmitResponse 1)] st_response"

definition st_closed :: state where
  "st_closed = run [(40, Some buyer1, CloseRFP 0)] st_response"

section \<open>Relations between the store before and after a request\<close>

text \<open>
  \<open>rfp_ok now a r d\<close> relates a stored RFP \<open>r\<close> to the document \<open>d\<close> that replaces it
  when the request \<open>a\<close> succeeds; \<open>rfps_shape now a s s'\<close> lists the four ways in which
  the RFP collection of \<open>s'\<close> comes from that of \<open>s\<close>: unchanged, one document inserted by
  createRFP, one document replaced, one document deleted.
\<close>

definition rfp_ok :: "time \<Rightarrow> action \<Rightarrow> rfp \<Rightarrow> rfp \<Rightarrow> bool" where
  "rfp_ok now a r d \<longleftrightarrow>
     rfp_oid d = rfp_oid r
     \<and> (status d = Cancelled \<longrightarrow>
          status r = Cancelled \<or> (\<exists>j b. a = UpdateRFP j b \<and> b_status b = Some Cancelled))
     \<and> ((status r = Published \<longrightarrow> published_at r \<noteq> None) \<longrightarrow>
          (status d = Published \<longrightarrow> published_at d \<noteq> None))
     \<and> (response_count r \<le> response_count d
          \<or> (\<exists>j b. a = UpdateRFP j b \<and> b_response_count b \<noteq> None))"

definition rfps_shape :: "time \<Rightarrow> action \<Rightarrow> state \<Rightarrow> state \<Rightarrow> bool" where
  "rfps_shape now a s s' \<longleftrightarrow>
     rfps s' = rfps s
     \<or> (\<exists>b d. a = CreateRFP b \<and> rfps s' = rfps s @ [d] \<and> rfp_oid d = next_id s
            \<and> next_id s' = Suc (next_id s)
            \<and> status d = (case b_status b of None \<Rightarrow> Draft | Some x \<Rightarrow> x)
            \<and> (status d = Published \<longrightarrow> published_at d \<noteq> None))
     \<or> (\<exists>i r d. find_rfp i s = Some r
            \<and> rfps s' = update_first (\<lambda>x. rfp_oid x = i) (\<lambda>_. d) (rfps s) \<and> rfp_ok now a r d)
     \<or> (\<exists>i. rfps s' = delete_first (\<lambda>x. rfp_oid x = i) (rfps s))"

text \<open>The requests whose body carries the status cancelled, or a response\_count.\<close>

definition sets_cancelled :: "action \<Rightarrow> bool" where
  "sets_cancelled a =
     (case a of
        CreateRFP b \<Rightarrow> b_status b = Some Cancelled
      | UpdateRFP i b \<Rightarrow> b_status b = Some Cancelled
      | _ \<Rightarrow> False)"

definition sets_response_count :: "action \<Rightarrow> bool" where
  "sets_response_count a =
     (case a of UpdateRFP i b \<Rightarrow> b_response_count b \<noteq> None | _ \<Rightarrow> False)"

text \<open>Create, publish and close one RFP, by its owner.\<close>

definition reqs_close :: "(time \<times> user option \<times> action) list" where
  "reqs_close = [(10, Some buyer1, CreateRFP rfp_body0), (20, Some buyer1, PublishRFP 0),
                 (40, Some buyer1, CloseRFP 0)]"

text \<open>
  \<open>responses_shape now a s s'\<close> lists the four ways in which the Response collection of
  \<open>s'\<close> comes from that of \<open>s\<close>; a replaced document keeps its pair (rfp\_id,
  submitted\_by) or has passed the unique index.
\<close>

definition responses_shape :: "time \<Rightarrow> action \<Rightarrow> state \<Rightarrow> state \<Rightarrow> bool" where
  "responses_shape now a s s' \<longleftrightarrow>
     responses s' = responses s
     \<or> (\<exists>d. responses s' = responses s @ [d] \<and> resp_oid d = next_id s
            \<and> next_id s' = Suc (next_id s)
            \<and> \<not> list_ex (\<lambda>x. rfp_id x = rfp_id d \<and> submitted_by x = submitted_by d) (responses s))
     \<or> (\<exists>i r d. find_response i s = Some r
            \<and> responses s' = update_first (\<lambda>x. resp_oid x = i) (\<lambda>_. d) (responses s)
            \<and> resp_oid d = resp_oid r
            \<and> (rfp_id d = rfp_id r \<and> submitted_by d = submitted_by r
                \<or> \<not> index_clash d (responses s)))
     \<or> (\<exists>i. responses s' = delete_first (\<lambda>x. resp_oid x = i) (responses s))"

text \<open>
  The invariant of the store: identifiers are distinct and below the counter, and no two
  responses share the pair (rfp\_id, submitted\_by).
\<close>

definition wf_state :: "state \<Rightarrow> bool" where
  "wf_state s \<longleftrightarrow>
     distinct (map rfp_oid (rfps s))
     \<and> (\<forall>r\<in>set (rfps s). rfp_oid r < next_id s)
     \<and> distinct (map resp_oid (responses s))
     \<and> (\<forall>r\<in>set (responses s). resp_oid r < next_id s)
     \<and> distinct (map (\<lambda>r. (rfp_id r, submitted_by r)) (responses s))"

text \<open>The pair of the unique index, and the counter of an RFP read from the store.\<close>

definition response_key :: "response \<Rightarrow> oid \<times> oid" where
  "response_key r = (rfp_id r, submitted_by r)"

definition rfp_count :: "oid \<Rightarrow> state \<Rightarrow> int option" where
  "rfp_count j s = map_option response_count (find_rfp j s)"

text \<open>Two runs: an RFP is created and published; a response to it is created and submitted.\<close>

definition reqs_publish :: "(time \<times> user option \<times> action) list" where
  "reqs_publish = [(10, Some buyer1, CreateRFP rfp_body0), (20, Some buyer1, PublishRFP 0)]"

definition reqs_submit :: "(time \<times> user option \<times> action) list" where
  "reqs_submit = [(30, Some supplier1, CreateResponse response_body0),
                  (40, Some supplier1, SubmitResponse 1)]"

text \<open>An upload without a parent, the document it stores, and the store after an upload to RFP 0.\<close>

definition attachment_body :: upload_body where
  "attachment_body = \<lparr>ub_document_type = Attachment, ub_description = None, ub_rfp_id = None,
                       ub_response_id = None\<rparr>"

definition document2 :: document where
  "document2 = \<lparr>doc_oid = 2, filename = ''a1-17.pdf'', original_filename = ''terms.pdf'',
                 file_size = 2048, content_type = ''application/pdf'', doc_type = Attachment,
                 doc_description = None, doc_rfp_id = None, doc_response_id = None,
                 uploaded_by = 1, file_path = ''uploads/a1-17.pdf''\<rparr>"

definition st_uploaded :: state where
  "st_uploaded =
     \<lparr>rfps = [rfp0\<lparr>status := Published, published_at := Some 20, document_ids := [2]\<rparr>],
      responses = [response1],
      documents = [document2\<lparr>doc_type := RfpDocument, doc_rfp_id := Some 0\<rparr>], next_id = 3\<rparr>"


section \<open>Properties\<close>

subsection \<open>The scenarios, evaluated\<close>

lemma st_draft_eq:
  "st_draft = \<lparr>rfps = [rfp0], responses = [], documents = [], next_id = 1\<rparr>"
  by code_simp

lemma st_published_eq:
  "st_published =
     \<lparr>rfps = [rfp0\<lparr>status := Published, published_at := Some 20\<rparr>], responses = [],
      documents = [], next_id = 1\<rparr>"
  unfolding st_published_def st_draft_eq by code_simp

lemma st_response_eq:
  "st_response =
     \<lparr>rfps = [rfp0\<lparr>status := Published, published_at := Some 20\<rparr>],
      responses = [response1], documents = [], next_id = 2\<rparr>"
  unfolding st_response_def st_published_eq by code_simp

lemma st_submitted_eq:
  "st_submitted =
     \<lparr>rfps = [rfp0\<lparr>status := Published, published_at := Some 20, response_count := 1\<rparr>],
      responses = [response1\<lparr>rstatus := Submitted, submitted_at := Some 40\<rparr>],
      documents = [], next_id = 2\<rparr>"
  unfolding st_submitted_def st_response_eq by code_simp

lemma st_closed_eq:
  "st_closed =
     \<lparr>rfps = [rfp0\<lparr>status := Closed, published_at := Some 20\<rparr>],
      responses = [response1], documents = [], next_id = 2\<rparr>"
  unfolding st_closed_def st_response_eq by code_simp

subsection \<open>Lists\<close>

lemma find_Some_D: "find P xs = Some x \<Longrightarrow> x \<in> set xs \<and> P x"
  by (induction xs) (auto split: if_splits)

subsection \<open>Review\<close>

text \<open>
  C2. A review with outcome under\_review of the submitted response of \<open>st_submitted\<close>, by
  the owner of its RFP at time 50, succeeds, sets the status to under\_review, and stamps
  reviewed\_at with 50: reviewResponse assigns \<^verbatim>\<open>reviewed_at = new Date()\<close> whatever the
  outcome is.
\<close>

theorem C2_review_under_review_stamps_reviewed_at:
  "map reviewed_at (responses st_submitted) = [None]
   \<and> map_sum id (rstatus \<circ> snd)
        (route_reviewResponse 50 (Some buyer1) 1
           \<lparr>rv_status = UnderReview, rv_reviewer_notes = Some ''looking into it''\<rparr> st_submitted)
      = Inr UnderReview
   \<and> map_sum id (reviewed_at \<circ> snd)
        (route_reviewResponse 50 (Some buyer1) 1
           \<lparr>rv_status = UnderReview, rv_reviewer_notes = Some ''looking into it''\<rparr> st_submitted)
      = Inr (Some 50)"
  unfolding st_submitted_eq by code_simp

subsection \<open>The parent RFP of a response that is updated or submitted\<close>

text \<open>
  C4. In \<open>st_closed\<close> the RFP 0 is closed and holds the draft response 1 of \<open>supplier1\<close>.
  Before the deadline, updateResponse and submitResponse both succeed on that response:
  neither reads the status of the parent RFP, which createResponse does.
\<close>

theorem C4_update_and_submit_ignore_rfp_status:
  "map status (rfps st_closed) = [Closed]
   \<and> map_sum id (proposal \<circ> snd)
        (route_updateResponse 50 (Some supplier1) 1
           (response_body0\<lparr>rb_proposal := Some ''A changed proposal''\<rparr>) st_closed)
      = Inr ''A changed proposal''
   \<and> map_sum id (rstatus \<circ> snd) (route_submitResponse 50 (Some supplier1) 1 st_closed)
      = Inr Submitted
   \<and> map response_count (rfps (step 50 (Some supplier1) (SubmitResponse 1) st_closed)) = [1]
   \<and> route_createResponse 50 (Some \<lparr>user_id = 3, role = Supplier\<rparr>) response_body0 st_closed
      = Inl CannotRespondToRFP"
  unfolding st_closed_eq by code_simp

subsection \<open>Visibility of an RFP\<close>



text \<open>
  When the creator of a draft is no stored user, the populated created\_by is null and every
  authenticated caller is answered with the TypeError of \<^verbatim>\<open>rfp.created_by._id\<close>.
\<close>

lemma getRFPById_missing_creator:
  assumes "find_rfp i s = Some r" and "status r = Draft" and "created_by r \<notin> set users"
  shows "getRFPById users (Some u) i s = Inl TypeError"
  using assms by (simp add: getRFPById_def)

subsection \<open>Middleware, save and assignment\<close>

lemma authorize_Inr: "authorize roles actor = Inr u \<longleftrightarrow> actor = Some u \<and> role u \<in> set roles"
  by (auto simp: authorize_def split: option.splits)

lemma authorize_Some: "authorize roles (Some u) = (if role u \<in> set roles then Inr u else Inl RoleDenied)"
  by (simp add: authorize_def)

lemma rfp_save_Inr: "rfp_save now sm r = Inr r' \<longleftrightarrow> rfp_validate now r \<and> r' = rfp_pre_save now sm r"
  by (auto simp: rfp_save_def)

lemma rfp_save_expired: "deadline r \<le> now \<Longrightarrow> rfp_save now sm r = Inl MongooseValidationError"
  by (simp add: rfp_save_def rfp_validate_def deadline_validator_def)

lemma rfp_pre_save_simps [simp]:
  "status (rfp_pre_save now sm r) = status r"
  "deadline (rfp_pre_save now sm r) = deadline r"
  "rfp_oid (rfp_pre_save now sm r) = rfp_oid r"
  "response_count (rfp_pre_save now sm r) = response_count r"
  "created_by (rfp_pre_save now sm r) = created_by r"
  "document_ids (rfp_pre_save now sm r) = document_ids r"
  "published_at (rfp_pre_save now sm r) =
     (if sm \<and> status r = Published \<and> published_at r = None then Some now else published_at r)"
  by (simp_all add: rfp_pre_save_def)

lemma validateRFP_Inr:
  "validateRFP now b = Inr b' \<Longrightarrow> b' = sanitizeRFP b \<and> deadline_rule now b"
  by (auto simp: validateRFP_def split: if_splits)

lemma sanitizeRFP_simps [simp]:
  "b_deadline (sanitizeRFP b) = b_deadline b"
  "b_status (sanitizeRFP b) = b_status b"
  "b_published_at (sanitizeRFP b) = b_published_at b"
  "b_response_count (sanitizeRFP b) = b_response_count b"
  "b_created_by (sanitizeRFP b) = b_created_by b"
  "b_document_ids (sanitizeRFP b) = b_document_ids b"
  by (simp_all add: sanitizeRFP_def)

lemma assign_rfp_simps [simp]:
  "rfp_oid (assign_rfp b r) = rfp_oid r"
  "deadline (assign_rfp b r) = (case b_deadline b of None \<Rightarrow> deadline r | Some x \<Rightarrow> x)"
  "status (assign_rfp b r) = (case b_status b of None \<Rightarrow> status r | Some x \<Rightarrow> x)"
  "published_at (assign_rfp b r) = (case b_published_at b of None \<Rightarrow> published_at r | Some x \<Rightarrow> Some x)"
  "response_count (assign_rfp b r) = (case b_response_count b of None \<Rightarrow> response_count r | Some x \<Rightarrow> x)"
  by (simp_all add: assign_rfp_def)

subsection \<open>Saving an RFP whose deadline has passed\<close>

lemma publish_expired:
  assumes "find_rfp i s = Some r" "deadline r \<le> now"
  shows "route_publishRFP now actor i s \<noteq> Inr x"
    and "actor = Some u \<Longrightarrow> role u = Buyer \<Longrightarrow> user_id u = created_by r \<Longrightarrow> status r = Draft \<Longrightarrow>
           route_publishRFP now actor i s = Inl MongooseValidationError"
  using assms
  by (auto simp: route_publishRFP_def publishRFP_def authorize_def rfp_save_expired split: option.splits)

lemma close_expired:
  assumes "find_rfp i s = Some r" "deadline r \<le> now"
  shows "route_closeRFP now actor i s \<noteq> Inr x"
    and "actor = Some u \<Longrightarrow> role u = Buyer \<Longrightarrow> user_id u = created_by r \<Longrightarrow> status r = Published \<Longrightarrow>
           route_closeRFP now actor i s = Inl MongooseValidationError"
  using assms
  by (auto simp: route_closeRFP_def closeRFP_def authorize_def rfp_save_expired split: option.splits)

lemma update_expired:
  assumes "find_rfp i s = Some r" "deadline r \<le> now"
  shows "route_updateRFP now actor i b s = Inr x \<Longrightarrow> (\<exists>d. b_deadline b = Some d \<and> now < d \<and> deadline (snd x) = d)"
    and "actor = Some u \<Longrightarrow> role u = Buyer \<Longrightarrow> (\<forall>d. b_deadline b = Some d \<longrightarrow> d \<le> now) \<Longrightarrow>
           route_updateRFP now actor i b s = Inl ValidationFailed"
proof -
  show "actor = Some u \<Longrightarrow> role u = Buyer \<Longrightarrow> (\<forall>d. b_deadline b = Some d \<longrightarrow> d \<le> now) \<Longrightarrow>
           route_updateRFP now actor i b s = Inl ValidationFailed"
    by (auto simp: route_updateRFP_def authorize_def validateRFP_def deadline_rule_def split: option.splits)
  assume a: "route_updateRFP now actor i b s = Inr x"
  then obtain u b' where u: "authorize [Buyer] actor = Inr u" and v: "validateRFP now b = Inr b'"
    and c: "updateRFP now u i b' s = Inr x"
    by (auto simp: route_updateRFP_def split: sum.splits)
  from v have b': "b' = sanitizeRFP b" and dl: "deadline_rule now b" using validateRFP_Inr by blast+
  from dl obtain d where d: "b_deadline b = Some d" "now < d"
    by (auto simp: deadline_rule_def split: option.splits)
  from c assms have "deadline (snd x) = d"
    by (auto simp: updateRFP_def Let_def b' d rfp_save_Inr split: if_splits sum.splits)
  with d show "\<exists>d. b_deadline b = Some d \<and> now < d \<and> deadline (snd x) = d" by simp
qed

lemma step_publish_expired:
  assumes "find_rfp i s = Some r" "deadline r \<le> now"
  shows "step now actor (PublishRFP i) s = s" "step now actor (CloseRFP i) s = s"
proof -
  show "step now actor (PublishRFP i) s = s"
    using publish_expired(1)[OF assms, of actor]
    by (cases "route_publishRFP now actor i s") (auto simp: step_def)
  show "step now actor (CloseRFP i) s = s"
    using close_expired(1)[OF assms, of actor]
    by (cases "route_closeRFP now actor i s") (auto simp: step_def)
qed

text \<open>
  C9, as stated, fails: in \<open>st_published\<close> the deadline of RFP 0 is 1000; at time 2000 its
  owner sends PUT /api/rfps/0 with the deadline 5000, and the update succeeds.
\<close>

theorem C9_counterexample:
  "map deadline (rfps st_published) = [1000]
   \<and> map deadline
        (rfps (step 2000 (Some buyer1) (UpdateRFP 0 (rfp_body0\<lparr>b_deadline := Some 5000\<rparr>))
                 st_published)) = [5000]"
  unfolding st_published_eq by code_simp

text \<open>
  C9, amended. For an RFP whose deadline is not after now, publish and close never succeed
  and leave the store as it is; when the caller is the owner and the status guard holds,
  the failure is the validation error of save(), raised by the deadline validator. An update
  succeeds only if its body replaces the deadline with one after now, which the stored
  RFP then carries; a body without such a deadline is rejected by validateRFP.
\<close>

theorem C9_expired_rfp_saves:
  assumes "find_rfp i s = Some r" and "deadline r \<le> now"
  shows "(\<forall>x. route_publishRFP now actor i s \<noteq> Inr x) \<and> step now actor (PublishRFP i) s = s
       \<and> (\<forall>x. route_closeRFP now actor i s \<noteq> Inr x) \<and> step now actor (CloseRFP i) s = s
       \<and> (actor = Some u \<and> role u = Buyer \<and> user_id u = created_by r \<and> status r = Draft \<longrightarrow>
            route_publishRFP now actor i s = Inl MongooseValidationError)
       \<and> (actor = Some u \<and> role u = Buyer \<and> user_id u = created_by r \<and> status r = Published \<longrightarrow>
            route_closeRFP now actor i s = Inl MongooseValidationError)
       \<and> (\<forall>x. route_updateRFP now actor i b s = Inr x \<longrightarrow>
            (\<exists>d. b_deadline b = Some d \<and> now < d \<and> deadline (snd x) = d))
       \<and> (actor = Some u \<and> role u = Buyer \<and> (\<forall>d. b_deadline b = Some d \<longrightarrow> d \<le> now) \<longrightarrow>
            route_updateRFP now actor i b s = Inl ValidationFailed)"
proof (intro conjI allI impI)
  show "\<And>x. route_publishRFP now actor i s \<noteq> Inr x"
    by (rule publish_expired(1) [OF assms])
  show "\<And>x. route_closeRFP now actor i s \<noteq> Inr x"
    by (rule close_expired(1) [OF assms])
  show "step now actor (PublishRFP i) s = s"
    by (rule step_publish_expired(1) [OF assms])
  show "step now actor (CloseRFP i) s = s"
    by (rule step_publish_expired(2) [OF assms])
  show "route_publishRFP now actor i s = Inl MongooseValidationError"
    if "actor = Some u \<and> role u = Buyer \<and> user_id u = created_by r \<and> status r = Draft"
    using that publish_expired(2) [OF assms] by simp
  show "route_closeRFP now actor i s = Inl MongooseValidationError"
    if "actor = Some u \<and> role u = Buyer \<and> user_id u = created_by r \<and> status r = Published"
    using that close_expired(2) [OF assms] by simp
  show "\<exists>d. b_deadline b = Some d \<and> now < d \<and> deadline (snd x) = d"
    if "route_updateRFP now actor i b s = Inr x" for x
    using that by (rule update_expired(1) [OF assms])
  show "route_updateRFP now actor i b s = Inl ValidationFailed"
    if "actor = Some u \<and> role u = Buyer \<and> (\<forall>d. b_deadline b = Some d \<longrightarrow> d \<le> now)"
    using that update_expired(2) [OF assms, of actor u b] by simp
qed

theorem C9_expired_rfp_saves_witness:
  "find_rfp 0 st_published = Some (rfp0\<lparr>status := Published, published_at := Some 20\<rparr>)
   \<and> deadline (rfp0\<lparr>status := Published, published_at := Some 20\<rparr>) \<le> 2000
   \<and> route_closeRFP 2000 (Some buyer1) 0 st_published = Inl MongooseValidationError
   \<and> step 2000 (Some buyer1) (CloseRFP 0) st_published = st_published
   \<and> step 2000 (Some buyer1) (PublishRFP 0) st_published = st_published
   \<and> route_updateRFP 2000 (Some buyer1) 0 rfp_body0 st_published = Inl ValidationFailed"
proof -
  let ?p = "rfp0\<lparr>status := Published, published_at := Some 20\<rparr>"
  have p: "find_rfp 0 st_published = Some ?p"
    by (simp add: st_published_eq find_rfp_def rfp0_def)
  have e: "deadline ?p \<le> 2000"
    by (simp add: rfp0_def)
  have f: "role buyer1 = Buyer" "user_id buyer1 = created_by ?p" "status ?p = Published"
    by (simp_all add: buyer1_def rfp0_def)
  have g: "\<forall>d. b_deadline rfp_body0 = Some d \<longrightarrow> d \<le> 2000"
    by (simp add: rfp_body0_def)
  note t = C9_expired_rfp_saves [OF p e, where actor = "Some buyer1" and u = buyer1 and b = rfp_body0]
  have 1: "route_closeRFP 2000 (Some buyer1) 0 st_published = Inl MongooseValidationError"
    using t f by simp
  have 2: "route_updateRFP 2000 (Some buyer1) 0 rfp_body0 st_published = Inl ValidationFailed"
    using t f g by simp
  show ?thesis using p e 1 2 t by simp
qed

subsection \<open>What each controller does to the store\<close>

lemma set_update_first: "x \<in> set (update_first P f xs) \<Longrightarrow> x \<in> set xs \<or> (\<exists>y\<in>set xs. P y \<and> x = f y)"
  by (induction xs) (auto split: if_splits)

lemma set_delete_first: "x \<in> set (delete_first P xs) \<Longrightarrow> x \<in> set xs"
  by (induction xs) (auto split: if_splits)

lemma update_first_const: "find P xs = Some r \<Longrightarrow> update_first P f xs = update_first P (\<lambda>_. f r) xs"
  by (induction xs) (auto split: if_splits)

lemma update_first_none: "find P xs = None \<Longrightarrow> update_first P f xs = xs"
  by (induction xs) (auto split: if_splits)

lemma createRFP_shape:
  assumes "createRFP now u b s = Inr (s', d)"
  shows "rfps s' = rfps s @ [d] \<and> responses s' = responses s \<and> documents s' = documents s
       \<and> next_id s' = Suc (next_id s) \<and> rfp_oid d = next_id s
       \<and> status d = (case b_status b of None \<Rightarrow> Draft | Some x \<Rightarrow> x)
       \<and> (status d = Published \<longrightarrow> published_at d \<noteq> None)
       \<and> published_at d = (if b_status b = Some Published \<and> b_published_at b = None
                           then Some now else b_published_at b)
       \<and> response_count d = (case b_response_count b of None \<Rightarrow> 0 | Some x \<Rightarrow> x)"
  using assms
  by (cases "b_title b"; cases "b_description b"; cases "b_category b"; cases "b_deadline b";
      cases "b_status b"; auto simp: createRFP_def Let_def rfp_save_Inr split: sum.splits)

lemma updateRFP_shape:
  assumes "updateRFP now u i b s = Inr (s', d)"
  shows "\<exists>r. find_rfp i s = Some r \<and> rfps s' = update_first (\<lambda>x. rfp_oid x = i) (\<lambda>_. d) (rfps s)
       \<and> responses s' = responses s \<and> documents s' = documents s \<and> next_id s' = next_id s
       \<and> rfp_oid d = rfp_oid r
       \<and> status d = (case b_status b of None \<Rightarrow> status r | Some x \<Rightarrow> x)
       \<and> status r \<noteq> Cancelled
       \<and> response_count d = (case b_response_count b of None \<Rightarrow> response_count r | Some x \<Rightarrow> x)
       \<and> ((status r = Published \<longrightarrow> published_at r \<noteq> None) \<longrightarrow> (status d = Published \<longrightarrow> published_at d \<noteq> None))"
  using assms
  by (auto simp: updateRFP_def Let_def rfp_save_Inr split: option.splits sum.splits if_splits)

lemma publishRFP_shape:
  assumes "publishRFP now u i s = Inr (s', d)"
  shows "\<exists>r. find_rfp i s = Some r \<and> rfps s' = update_first (\<lambda>x. rfp_oid x = i) (\<lambda>_. d) (rfps s)
       \<and> responses s' = responses s \<and> documents s' = documents s \<and> next_id s' = next_id s
       \<and> d = r\<lparr>status := Published, published_at := Some now\<rparr>"
  using assms
  by (auto simp: publishRFP_def Let_def rfp_save_Inr rfp_pre_save_def split: option.splits sum.splits if_splits)

lemma closeRFP_shape:
  assumes "closeRFP now u i s = Inr (s', d)"
  shows "\<exists>r. find_rfp i s = Some r \<and> rfps s' = update_first (\<lambda>x. rfp_oid x = i) (\<lambda>_. d) (rfps s)
       \<and> responses s' = responses s \<and> documents s' = documents s \<and> next_id s' = next_id s
       \<and> d = r\<lparr>status := Closed\<rparr>"
  using assms
  by (auto simp: closeRFP_def Let_def rfp_save_Inr rfp_pre_save_def split: option.splits sum.splits if_splits)

lemma deleteRFP_shape:
  assumes "deleteRFP u i s = Inr s'"
  shows "rfps s' = delete_first (\<lambda>x. rfp_oid x = i) (rfps s)
       \<and> responses s' = responses s \<and> documents s' = documents s \<and> next_id s' = next_id s"
  using assms
  by (auto simp: deleteRFP_def split: option.splits if_splits)


lemma response_save_Inr:
  "response_save now sm kw r others = Inr r' \<longleftrightarrow>
     response_validate r \<and> r' = response_pre_save now sm r \<and> \<not> (kw \<and> index_clash r' others)"
  by (auto simp: response_save_def Let_def)

lemma response_pre_save_simps [simp]:
  "resp_oid (response_pre_save now sm r) = resp_oid r"
  "rfp_id (response_pre_save now sm r) = rfp_id r"
  "submitted_by (response_pre_save now sm r) = submitted_by r"
  "rstatus (response_pre_save now sm r) = rstatus r"
  "submitted_at (response_pre_save now sm r) =
     (if sm \<and> rstatus r \<noteq> RDraft \<and> submitted_at r = None then Some now else submitted_at r)"
  "reviewed_at (response_pre_save now sm r) =
     (if sm \<and> (rstatus r = Approved \<or> rstatus r = Rejected) \<and> reviewed_at r = None
      then Some now else reviewed_at r)"
  by (auto simp: response_pre_save_def Let_def)

lemma assign_response_simps [simp]:
  "resp_oid (assign_response b r) = resp_oid r"
  "rfp_id (assign_response b r) = (case rb_rfp_id b of None \<Rightarrow> rfp_id r | Some x \<Rightarrow> x)"
  "submitted_by (assign_response b r) = (case rb_submitted_by b of None \<Rightarrow> submitted_by r | Some x \<Rightarrow> x)"
  "rstatus (assign_response b r) = (case rb_status b of None \<Rightarrow> rstatus r | Some x \<Rightarrow> x)"
  by (simp_all add: assign_response_def)

lemma createResponse_shape:
  assumes "createResponse now u b s = Inr (s', d)"
  shows "\<exists>rid p. rb_rfp_id b = Some rid \<and> find_rfp rid s = Some p \<and> status p = Published
       \<and> \<not> deadline p < now
       \<and> \<not> list_ex (\<lambda>x. rfp_id x = rid \<and> submitted_by x = user_id u) (responses s)
       \<and> responses s' = responses s @ [d] \<and> documents s' = documents s
       \<and> next_id s' = Suc (next_id s)
       \<and> resp_oid d = next_id s \<and> rfp_id d = rid \<and> submitted_by d = user_id u
       \<and> rstatus d = (case rb_status b of None \<Rightarrow> RDraft | Some x \<Rightarrow> x)
       \<and> rfps s' = (if rstatus d = Submitted
                    then update_first (\<lambda>x. rfp_oid x = rid)
                           (\<lambda>x. x\<lparr>response_count := js_inc (response_count x)\<rparr>) (rfps s)
                    else rfps s)"
  using assms
  by (auto simp: createResponse_def Let_def response_save_Inr inc_response_count_def
           split: option.splits sum.splits if_splits)

lemma updateResponse_shape:
  assumes "updateResponse now u i b s = Inr (s', d)"
  shows "\<exists>r p. find_response i s = Some r \<and> submitted_by r = user_id u
       \<and> rstatus r \<noteq> Approved \<and> rstatus r \<noteq> Rejected
       \<and> find_rfp (rfp_id r) s = Some p \<and> \<not> deadline p < now
       \<and> response_validate (assign_response b r)
       \<and> d = response_pre_save now (rstatus (assign_response b r) \<noteq> rstatus r) (assign_response b r)
       \<and> (rfp_id d \<noteq> rfp_id r \<or> submitted_by d \<noteq> submitted_by r \<longrightarrow> \<not> index_clash d (responses s))
       \<and> responses s' = update_first (\<lambda>x. resp_oid x = i) (\<lambda>_. d) (responses s)
       \<and> documents s' = documents s \<and> next_id s' = next_id s
       \<and> rfps s' = (if rstatus r = RDraft \<and> rstatus d = Submitted
                    then update_first (\<lambda>x. rfp_oid x = rfp_id d)
                           (\<lambda>x. x\<lparr>response_count := js_inc (response_count x)\<rparr>) (rfps s)
                    else rfps s)"
  using assms
  by (auto simp: updateResponse_def Let_def response_save_Inr inc_response_count_def
           split: option.splits sum.splits if_splits)

lemma submitResponse_shape:
  assumes "submitResponse now u i s = Inr (s', d)"
  shows "\<exists>r p. find_response i s = Some r \<and> submitted_by r = user_id u \<and> rstatus r = RDraft
       \<and> find_rfp (rfp_id r) s = Some p \<and> \<not> deadline p < now
       \<and> d = r\<lparr>rstatus := Submitted, submitted_at := Some now\<rparr>
       \<and> responses s' = update_first (\<lambda>x. resp_oid x = i) (\<lambda>_. d) (responses s)
       \<and> documents s' = documents s \<and> next_id s' = next_id s
       \<and> rfps s' = update_first (\<lambda>x. rfp_oid x = rfp_id r)
                      (\<lambda>x. x\<lparr>response_count := js_inc (response_count x)\<rparr>) (rfps s)"
  using assms
  by (auto simp: submitResponse_def Let_def response_save_Inr inc_response_count_def
                 response_pre_save_def
           split: option.splits sum.splits if_splits)

lemma reviewResponse_shape:
  assumes "reviewResponse now u i b s = Inr (s', d)"
  shows "\<exists>r p. find_response i s = Some r \<and> find_rfp (rfp_id r) s = Some p
       \<and> created_by p = user_id u \<and> (rstatus r = Submitted \<or> rstatus r = UnderReview)
       \<and> d = response_pre_save now (rv_status b \<noteq> rstatus r)
               (r\<lparr>rstatus := rv_status b, reviewer_notes := map_option trim (rv_reviewer_notes b),
                  reviewed_at := Some now\<rparr>)
       \<and> responses s' = update_first (\<lambda>x. resp_oid x = i) (\<lambda>_. d) (responses s)
       \<and> documents s' = documents s \<and> next_id s' = next_id s \<and> rfps s' = rfps s"
  using assms
  by (auto simp: reviewResponse_def Let_def response_save_Inr
           split: option.splits sum.splits if_splits)

lemma deleteResponse_shape:
  assumes "deleteResponse u i s = Inr s'"
  shows "\<exists>r. find_response i s = Some r \<and> rstatus r = RDraft
       \<and> responses s' = delete_first (\<lambda>x. resp_oid x = i) (responses s)
       \<and> rfps s' = rfps s \<and> documents s' = documents s \<and> next_id s' = next_id s"
  using assms
  by (auto simp: deleteResponse_def split: option.splits if_splits)

lemma uploadDocument_shape:
  assumes "uploadDocument u file b s = Inr (s', d)"
  shows "file \<noteq> None \<and> check_rfp_access u (ub_rfp_id b) s = None
       \<and> check_response_access u (ub_response_id b) s = None
       \<and> (ub_document_type b = RfpDocument \<longrightarrow> ub_rfp_id b \<noteq> None)
       \<and> (ub_document_type b = ResponseDocument \<longrightarrow> ub_response_id b \<noteq> None)
       \<and> doc_oid d = next_id s \<and> doc_type d = ub_document_type b
       \<and> doc_rfp_id d = ub_rfp_id b \<and> doc_response_id d = ub_response_id b
       \<and> uploaded_by d = user_id u
       \<and> documents s' = documents s @ [d] \<and> next_id s' = Suc (next_id s)
       \<and> rfps s' = (case ub_rfp_id b of
                      None \<Rightarrow> rfps s
                    | Some j \<Rightarrow> update_first (\<lambda>x. rfp_oid x = j)
                                 (\<lambda>x. x\<lparr>document_ids := document_ids x @ [doc_oid d]\<rparr>) (rfps s))
       \<and> responses s' = (case ub_response_id b of
                           None \<Rightarrow> responses s
                         | Some j \<Rightarrow> update_first (\<lambda>x. resp_oid x = j)
                                      (\<lambda>x. x\<lparr>rdocument_ids := rdocument_ids x @ [doc_oid d]\<rparr>)
                                      (responses s))"
  using assms
  by (auto simp: uploadDocument_def Let_def push_rfp_document_def push_response_document_def
           split: option.splits if_splits)

lemma deleteDocument_shape:
  assumes "deleteDocument u i s = Inr s'"
  shows "\<exists>d. find_document i s = Some d
       \<and> documents s' = delete_first (\<lambda>x. doc_oid x = i) (documents s) \<and> next_id s' = next_id s
       \<and> rfps s' = (case doc_rfp_id d of
                      None \<Rightarrow> rfps s
                    | Some j \<Rightarrow> update_first (\<lambda>x. rfp_oid x = j)
                                 (\<lambda>x. x\<lparr>document_ids := removeAll (doc_oid d) (document_ids x)\<rparr>)
                                 (rfps s))
       \<and> responses s' = (case doc_response_id d of
                           None \<Rightarrow> responses s
                         | Some j \<Rightarrow> update_first (\<lambda>x. resp_oid x = j)
                                      (\<lambda>x. x\<lparr>rdocument_ids := removeAll (doc_oid d) (rdocument_ids x)\<rparr>)
                                      (responses s))"
  using assms
  by (auto simp: deleteDocument_def Let_def pull_rfp_document_def pull_response_document_def
           split: option.splits if_splits)

subsection \<open>What each route does to the store\<close>

lemma authenticate_Inr: "authenticate actor = Inr u \<longleftrightarrow> actor = Some u"
  by (auto simp: authenticate_def split: option.splits)

lemma validateResponse_Inr:
  "validateResponse b = Inr b' \<longleftrightarrow> validateResponse_rules b \<and> b' = sanitizeResponse b"
  by (auto simp: validateResponse_def)

lemma sanitizeResponse_simps [simp]:
  "rb_rfp_id (sanitizeResponse b) = rb_rfp_id b"
  "rb_submitted_by (sanitizeResponse b) = rb_submitted_by b"
  "rb_status (sanitizeResponse b) = rb_status b"
  "rb_submitted_at (sanitizeResponse b) = rb_submitted_at b"
  "rb_reviewed_at (sanitizeResponse b) = rb_reviewed_at b"
  "rb_reviewer_notes (sanitizeResponse b) = rb_reviewer_notes b"
  "rb_document_ids (sanitizeResponse b) = rb_document_ids b"
  "rb_proposed_budget (sanitizeResponse b) = rb_proposed_budget b"
  by (simp_all add: sanitizeResponse_def)

lemma route_createRFP_D:
  "route_createRFP now actor b s = Inr x \<Longrightarrow>
     \<exists>u. actor = Some u \<and> role u = Buyer \<and> deadline_rule now b
        \<and> createRFP now u (sanitizeRFP b) s = Inr x"
  by (auto simp: route_createRFP_def authorize_Inr split: sum.splits dest: validateRFP_Inr)

lemma route_updateRFP_D:
  "route_updateRFP now actor i b s = Inr x \<Longrightarrow>
     \<exists>u. actor = Some u \<and> role u = Buyer \<and> deadline_rule now b
        \<and> updateRFP now u i (sanitizeRFP b) s = Inr x"
  by (auto simp: route_updateRFP_def authorize_Inr split: sum.splits dest: validateRFP_Inr)

lemma route_deleteRFP_D:
  "route_deleteRFP actor i s = Inr x \<Longrightarrow> \<exists>u. actor = Some u \<and> role u = Buyer \<and> deleteRFP u i s = Inr x"
  by (auto simp: route_deleteRFP_def authorize_Inr split: sum.splits)

lemma route_publishRFP_D:
  "route_publishRFP now actor i s = Inr x \<Longrightarrow>
     \<exists>u. actor = Some u \<and> role u = Buyer \<and> publishRFP now u i s = Inr x"
  by (auto simp: route_publishRFP_def authorize_Inr split: sum.splits)

lemma route_closeRFP_D:
  "route_closeRFP now actor i s = Inr x \<Longrightarrow>
     \<exists>u. actor = Some u \<and> role u = Buyer \<and> closeRFP now u i s = Inr x"
  by (auto simp: route_closeRFP_def authorize_Inr split: sum.splits)

lemma route_createResponse_D:
  "route_createResponse now actor b s = Inr x \<Longrightarrow>
     \<exists>u. actor = Some u \<and> role u = Supplier \<and> validateResponse_rules b
        \<and> createResponse now u (sanitizeResponse b) s = Inr x"
  by (auto simp: route_createResponse_def authorize_Inr validateResponse_Inr split: sum.splits if_splits)

lemma route_updateResponse_D:
  "route_updateResponse now actor i b s = Inr x \<Longrightarrow>
     \<exists>u. actor = Some u \<and> role u = Supplier \<and> validateResponse_rules b
        \<and> updateResponse now u i (sanitizeResponse b) s = Inr x"
  by (auto simp: route_updateResponse_def authorize_Inr validateResponse_Inr split: sum.splits)

lemma route_deleteResponse_D:
  "route_deleteResponse actor i s = Inr x \<Longrightarrow>
     \<exists>u. actor = Some u \<and> role u = Supplier \<and> deleteResponse u i s = Inr x"
  by (auto simp: route_deleteResponse_def authorize_Inr split: sum.splits)

lemma route_submitResponse_D:
  "route_submitResponse now actor i s = Inr x \<Longrightarrow>
     \<exists>u. actor = Some u \<and> role u = Supplier \<and> submitResponse now u i s = Inr x"
  by (auto simp: route_submitResponse_def authorize_Inr split: sum.splits)

lemma route_reviewResponse_D:
  "route_reviewResponse now actor i b s = Inr x \<Longrightarrow>
     \<exists>u. actor = Some u \<and> role u = Buyer
        \<and> (rv_status b = Approved \<or> rv_status b = Rejected \<or> rv_status b = UnderReview)
        \<and> reviewResponse now u i (b\<lparr>rv_reviewer_notes := map_option trim (rv_reviewer_notes b)\<rparr>) s = Inr x"
  by (auto simp: route_reviewResponse_def authorize_Inr split: sum.splits if_splits)

lemma route_uploadDocument_D:
  "route_uploadDocument actor file b s = Inr x \<Longrightarrow>
     \<exists>u. actor = Some u
        \<and> uploadDocument u file (b\<lparr>ub_description := map_option trim (ub_description b)\<rparr>) s = Inr x"
  by (auto simp: route_uploadDocument_def authenticate_Inr split: sum.splits if_splits)

lemma route_deleteDocument_D:
  "route_deleteDocument actor i s = Inr x \<Longrightarrow> \<exists>u. actor = Some u \<and> deleteDocument u i s = Inr x"
  by (auto simp: route_deleteDocument_def authenticate_Inr split: sum.splits)

lemma map_sum_fst_Inr: "map_sum id fst r = Inr s' \<longleftrightarrow> (\<exists>d. r = Inr (s', d))"
  by (cases r) auto

lemma update_first_cases:
  "update_first P f xs = xs \<or> (\<exists>r. find P xs = Some r \<and> update_first P f xs = update_first P (\<lambda>_. f r) xs)"
  by (cases "find P xs") (auto simp: update_first_none dest: update_first_const)

lemma find_rfp_oid: "find_rfp i s = Some r \<Longrightarrow> rfp_oid r = i \<and> r \<in> set (rfps s)"
  by (auto simp: find_rfp_def dest: find_Some_D)

lemma find_response_oid: "find_response i s = Some r \<Longrightarrow> resp_oid r = i \<and> r \<in> set (responses s)"
  by (auto simp: find_response_def dest: find_Some_D)

lemma exec_next_id: "exec now actor a s = Inr s' \<Longrightarrow> next_id s \<le> next_id s'"
proof (cases a)
  case (CreateRFP b)
  then show "exec now actor a s = Inr s' \<Longrightarrow> ?thesis"
    by (auto simp: map_sum_fst_Inr dest!: route_createRFP_D createRFP_shape)
next
  case (UpdateRFP i b)
  then show "exec now actor a s = Inr s' \<Longrightarrow> ?thesis"
    by (auto simp: map_sum_fst_Inr dest!: route_updateRFP_D updateRFP_shape)
next
  case (DeleteRFP i)
  then show "exec now actor a s = Inr s' \<Longrightarrow> ?thesis"
    by (auto dest!: route_deleteRFP_D deleteRFP_shape)
next
  case (PublishRFP i)
  then show "exec now actor a s = Inr s' \<Longrightarrow> ?thesis"
    by (auto simp: map_sum_fst_Inr dest!: route_publishRFP_D publishRFP_shape)
next
  case (CloseRFP i)
  then show "exec now actor a s = Inr s' \<Longrightarrow> ?thesis"
    by (auto simp: map_sum_fst_Inr dest!: route_closeRFP_D closeRFP_shape)
next
  case (CreateResponse b)
  then show "exec now actor a s = Inr s' \<Longrightarrow> ?thesis"
    by (auto simp: map_sum_fst_Inr dest!: route_createResponse_D createResponse_shape)
next
  case (UpdateResponse i b)
  then show "exec now actor a s = Inr s' \<Longrightarrow> ?thesis"
    by (auto simp: map_sum_fst_Inr dest!: route_updateResponse_D updateResponse_shape)
next
  case (DeleteResponse i)
  then show "exec now actor a s = Inr s' \<Longrightarrow> ?thesis"
    by (auto dest!: route_deleteResponse_D deleteResponse_shape)
next
  case (SubmitResponse i)
  then show "exec now actor a s = Inr s' \<Longrightarrow> ?thesis"
    by (auto simp: map_sum_fst_Inr dest!: route_submitResponse_D submitResponse_shape)
next
  case (ReviewResponse i b)
  then show "exec now actor a s = Inr s' \<Longrightarrow> ?thesis"
    by (auto simp: map_sum_fst_Inr dest!: route_reviewResponse_D reviewResponse_shape)
next
  case (UploadDocument f b)
  then show "exec now actor a s = Inr s' \<Longrightarrow> ?thesis"
    by (auto simp: map_sum_fst_Inr dest!: route_uploadDocument_D uploadDocument_shape)
next
  case (DeleteDocument i)
  then show "exec now actor a s = Inr s' \<Longrightarrow> ?thesis"
    by (auto dest!: route_deleteDocument_D deleteDocument_shape)
qed

lemma js_inc_ge: "x \<le> js_inc x"
  by (simp add: js_inc_def)

lemma js_inc_exact: "- (2 ^ 53) \<le> x \<and> x < 2 ^ 53 \<longrightarrow> js_inc x = x + 1"
  by (simp add: js_inc_def)

lemma inc_cases:
  "update_first (\<lambda>x. rfp_oid x = j) (\<lambda>x. x\<lparr>response_count := js_inc (response_count x)\<rparr>) (rfps s) = rfps s
   \<or> (\<exists>r. find_rfp j s = Some r
          \<and> update_first (\<lambda>x. rfp_oid x = j) (\<lambda>x. x\<lparr>response_count := js_inc (response_count x)\<rparr>) (rfps s)
            = update_first (\<lambda>x. rfp_oid x = j) (\<lambda>_. r\<lparr>response_count := js_inc (response_count r)\<rparr>) (rfps s))"
  unfolding find_rfp_def by (rule update_first_cases)

lemma docs_cases:
  "update_first (\<lambda>x. rfp_oid x = j) (\<lambda>x. x\<lparr>document_ids := g (document_ids x)\<rparr>) (rfps s) = rfps s
   \<or> (\<exists>r. find_rfp j s = Some r
          \<and> update_first (\<lambda>x. rfp_oid x = j) (\<lambda>x. x\<lparr>document_ids := g (document_ids x)\<rparr>) (rfps s)
            = update_first (\<lambda>x. rfp_oid x = j) (\<lambda>_. r\<lparr>document_ids := g (document_ids r)\<rparr>) (rfps s))"
  unfolding find_rfp_def by (rule update_first_cases)

lemma rfps_shape_same: "rfps s' = rfps s \<Longrightarrow> rfps_shape now a s s'"
  by (simp add: rfps_shape_def)

lemma rfps_shape_updI:
  "find_rfp i s = Some r \<Longrightarrow> rfps s' = update_first (\<lambda>x. rfp_oid x = i) (\<lambda>_. d) (rfps s)
   \<Longrightarrow> rfp_ok now a r d \<Longrightarrow> rfps_shape now a s s'"
  unfolding rfps_shape_def by blast

lemma rfps_shape_inc:
  assumes "rfps s' = update_first (\<lambda>x. rfp_oid x = j)
                       (\<lambda>x. x\<lparr>response_count := js_inc (response_count x)\<rparr>) (rfps s)"
  shows "rfps_shape now a s s'"
  using inc_cases [of j s]
proof (elim disjE exE conjE)
  assume "update_first (\<lambda>x. rfp_oid x = j)
            (\<lambda>x. x\<lparr>response_count := js_inc (response_count x)\<rparr>) (rfps s) = rfps s"
  with assms show ?thesis by (simp add: rfps_shape_same)
next
  fix r
  assume r: "find_rfp j s = Some r"
    and "update_first (\<lambda>x. rfp_oid x = j)
           (\<lambda>x. x\<lparr>response_count := js_inc (response_count x)\<rparr>) (rfps s)
         = update_first (\<lambda>x. rfp_oid x = j)
             (\<lambda>_. r\<lparr>response_count := js_inc (response_count r)\<rparr>) (rfps s)"
  with assms have "rfps s' = update_first (\<lambda>x. rfp_oid x = j)
                               (\<lambda>_. r\<lparr>response_count := js_inc (response_count r)\<rparr>) (rfps s)"
    by simp
  then show ?thesis
    by (rule rfps_shape_updI [OF r]) (simp add: rfp_ok_def js_inc_ge)
qed

lemma rfps_shape_docs:
  assumes "rfps s' = update_first (\<lambda>x. rfp_oid x = j)
                       (\<lambda>x. x\<lparr>document_ids := g (document_ids x)\<rparr>) (rfps s)"
  shows "rfps_shape now a s s'"
  using docs_cases [of j g s]
proof (elim disjE exE conjE)
  assume "update_first (\<lambda>x. rfp_oid x = j)
            (\<lambda>x. x\<lparr>document_ids := g (document_ids x)\<rparr>) (rfps s) = rfps s"
  with assms show ?thesis by (simp add: rfps_shape_same)
next
  fix r
  assume r: "find_rfp j s = Some r"
    and "update_first (\<lambda>x. rfp_oid x = j)
           (\<lambda>x. x\<lparr>document_ids := g (document_ids x)\<rparr>) (rfps s)
         = update_first (\<lambda>x. rfp_oid x = j)
             (\<lambda>_. r\<lparr>document_ids := g (document_ids r)\<rparr>) (rfps s)"
  with assms have "rfps s' = update_first (\<lambda>x. rfp_oid x = j)
                               (\<lambda>_. r\<lparr>document_ids := g (document_ids r)\<rparr>) (rfps s)"
    by simp
  then show ?thesis
    by (rule rfps_shape_updI [OF r]) (simp add: rfp_ok_def)
qed

lemma exec_rfps_shape: "exec now actor a s = Inr s' \<Longrightarrow> rfps_shape now a s s'"
proof (cases a)
  case (CreateRFP b)
  then show "exec now actor a s = Inr s' \<Longrightarrow> ?thesis"
    by (auto simp: map_sum_fst_Inr rfps_shape_def dest!: route_createRFP_D createRFP_shape)
next
  case (UpdateRFP i b)
  then show "exec now actor a s = Inr s' \<Longrightarrow> ?thesis"
    by (fastforce simp: map_sum_fst_Inr rfps_shape_def rfp_ok_def dest!: route_updateRFP_D updateRFP_shape split: option.splits)
next
  case (DeleteRFP i)
  then show "exec now actor a s = Inr s' \<Longrightarrow> ?thesis"
    by (auto simp: rfps_shape_def dest!: route_deleteRFP_D deleteRFP_shape)
next
  case (PublishRFP i)
  then show "exec now actor a s = Inr s' \<Longrightarrow> ?thesis"
    by (fastforce simp: map_sum_fst_Inr rfps_shape_def rfp_ok_def dest!: route_publishRFP_D publishRFP_shape)
next
  case (CloseRFP i)
  then show "exec now actor a s = Inr s' \<Longrightarrow> ?thesis"
    by (fastforce simp: map_sum_fst_Inr rfps_shape_def rfp_ok_def dest!: route_closeRFP_D closeRFP_shape)
next
  case (CreateResponse b)
  then show "exec now actor a s = Inr s' \<Longrightarrow> ?thesis"
    by (auto simp: map_sum_fst_Inr intro: rfps_shape_same rfps_shape_inc dest!: route_createResponse_D createResponse_shape split: if_splits)
next
  case (UpdateResponse i b)
  then show "exec now actor a s = Inr s' \<Longrightarrow> ?thesis"
    by (auto simp: map_sum_fst_Inr intro: rfps_shape_same rfps_shape_inc dest!: route_updateResponse_D updateResponse_shape split: if_splits)
next
  case (DeleteResponse i)
  then show "exec now actor a s = Inr s' \<Longrightarrow> ?thesis"
    by (auto intro: rfps_shape_same dest!: route_deleteResponse_D deleteResponse_shape)
next
  case (SubmitResponse i)
  then show "exec now actor a s = Inr s' \<Longrightarrow> ?thesis"
    by (auto simp: map_sum_fst_Inr intro: rfps_shape_inc dest!: route_submitResponse_D submitResponse_shape)
next
  case (ReviewResponse i b)
  then show "exec now actor a s = Inr s' \<Longrightarrow> ?thesis"
    by (auto simp: map_sum_fst_Inr intro: rfps_shape_same dest!: route_reviewResponse_D reviewResponse_shape)
next
  case (UploadDocument f b)
  then show "exec now actor a s = Inr s' \<Longrightarrow> ?thesis"
    by (auto simp: map_sum_fst_Inr intro: rfps_shape_same rfps_shape_docs [where g = "\<lambda>ds. ds @ [d]" for d] dest!: route_uploadDocument_D uploadDocument_shape split: option.splits)
next
  case (DeleteDocument i)
  then show "exec now actor a s = Inr s' \<Longrightarrow> ?thesis"
    by (auto intro: rfps_shape_same rfps_shape_docs [where g = "removeAll d" for d] dest!: route_deleteDocument_D deleteDocument_shape split: option.splits)
qed

subsection \<open>Invariants of the RFP collection\<close>

lemma rfps_shape_inv:
  assumes sh: "rfps_shape now a s s'"
    and inv: "\<forall>r\<in>set (rfps s). P r"
    and cr: "\<And>b d. a = CreateRFP b \<Longrightarrow> status d = (case b_status b of None \<Rightarrow> Draft | Some x \<Rightarrow> x)
               \<Longrightarrow> (status d = Published \<longrightarrow> published_at d \<noteq> None) \<Longrightarrow> P d"
    and up: "\<And>r d. rfp_ok now a r d \<Longrightarrow> P r \<Longrightarrow> P d"
  shows "\<forall>r\<in>set (rfps s'). P r"
  using sh unfolding rfps_shape_def
proof (elim disjE exE conjE)
  assume "rfps s' = rfps s"
  with inv show ?thesis by simp
next
  fix b d
  assume "a = CreateRFP b" "rfps s' = rfps s @ [d]"
    "status d = (case b_status b of None \<Rightarrow> Draft | Some x \<Rightarrow> x)"
    "status d = Published \<longrightarrow> published_at d \<noteq> None"
  with inv cr show ?thesis by auto
next
  fix i r d
  assume r: "find_rfp i s = Some r"
    and e: "rfps s' = update_first (\<lambda>x. rfp_oid x = i) (\<lambda>_. d) (rfps s)"
    and ok: "rfp_ok now a r d"
  from r inv have "P r" by (auto dest: find_rfp_oid)
  with ok have "P d" by (rule up)
  with inv e show ?thesis by (auto dest: set_update_first)
next
  fix i
  assume "rfps s' = delete_first (\<lambda>x. rfp_oid x = i) (rfps s)"
  with inv show ?thesis by (auto dest: set_delete_first)
qed

lemma step_cases:
  obtains "step now actor a s = s" | s' where "exec now actor a s = Inr s'" "step now actor a s = s'"
  by (cases "exec now actor a s") (auto simp: step_def)

lemma step_published_inv:
  assumes "\<forall>r\<in>set (rfps s). status r = Published \<longrightarrow> published_at r \<noteq> None"
  shows "\<forall>r\<in>set (rfps (step now actor a s)). status r = Published \<longrightarrow> published_at r \<noteq> None"
proof (cases rule: step_cases [of now actor a s])
  case 1
  with assms show ?thesis by simp
next
  case (2 s')
  from 2(1) have "rfps_shape now a s s'" by (rule exec_rfps_shape)
  then have "\<forall>r\<in>set (rfps s'). status r = Published \<longrightarrow> published_at r \<noteq> None"
    using assms by (rule rfps_shape_inv) (auto simp: rfp_ok_def)
  with 2(2) show ?thesis by simp
qed

lemma run_published_inv:
  "\<forall>r\<in>set (rfps s). status r = Published \<longrightarrow> published_at r \<noteq> None \<Longrightarrow>
   \<forall>r\<in>set (rfps (run reqs s)). status r = Published \<longrightarrow> published_at r \<noteq> None"
proof (induction reqs arbitrary: s)
  case Nil
  then show ?case by simp
next
  case (Cons q reqs)
  obtain now actor a where q: "q = (now, actor, a)" by (cases q) auto
  show ?case unfolding q run.simps
    by (rule Cons.IH) (rule step_published_inv [OF Cons.prems])
qed

lemma step_cancelled_inv:
  assumes "\<forall>r\<in>set (rfps s). status r \<noteq> Cancelled" and "\<not> sets_cancelled a"
  shows "\<forall>r\<in>set (rfps (step now actor a s)). status r \<noteq> Cancelled"
proof (cases rule: step_cases [of now actor a s])
  case 1
  with assms show ?thesis by simp
next
  case (2 s')
  from 2(1) have "rfps_shape now a s s'" by (rule exec_rfps_shape)
  then have "\<forall>r\<in>set (rfps s'). status r \<noteq> Cancelled"
    using assms(1)
  proof (rule rfps_shape_inv)
    fix b and d :: rfp
    assume "a = CreateRFP b" "status d = (case b_status b of None \<Rightarrow> Draft | Some x \<Rightarrow> x)"
    with assms(2) show "status d \<noteq> Cancelled"
      by (auto simp: sets_cancelled_def split: option.splits)
  next
    fix r d :: rfp
    assume "rfp_ok now a r d" "status r \<noteq> Cancelled"
    with assms(2) show "status d \<noteq> Cancelled"
      by (auto simp: rfp_ok_def sets_cancelled_def)
  qed
  with 2(2) show ?thesis by simp
qed

lemma run_cancelled_inv:
  "\<forall>r\<in>set (rfps s). status r \<noteq> Cancelled \<Longrightarrow> \<forall>(now, actor, a)\<in>set reqs. \<not> sets_cancelled a \<Longrightarrow>
   \<forall>r\<in>set (rfps (run reqs s)). status r \<noteq> Cancelled"
proof (induction reqs arbitrary: s)
  case Nil
  then show ?case by simp
next
  case (Cons q reqs)
  obtain now actor a where q: "q = (now, actor, a)" by (cases q) auto
  from Cons.prems(2) q have a: "\<not> sets_cancelled a" and rest: "\<forall>(now, actor, a)\<in>set reqs. \<not> sets_cancelled a"
    by auto
  show ?case unfolding q run.simps
    by (rule Cons.IH [OF step_cancelled_inv [OF Cons.prems(1) a] rest])
qed

subsection \<open>published\_at and the status cancelled\<close>

lemma run_reqs_close:
  "run reqs_close init_state =
     \<lparr>rfps = [rfp0\<lparr>status := Closed, published_at := Some 20\<rparr>], responses = [],
      documents = [], next_id = 1\<rparr>"
  by code_simp

text \<open>
  C3, as stated, fails: after create, publish and close the RFP is closed and still carries
  the published\_at that publish stamped.
\<close>

theorem C3_counterexample:
  "map status (rfps (run reqs_close init_state)) = [Closed]
   \<and> map published_at (rfps (run reqs_close init_state)) = [Some 20]"
  by (simp add: run_reqs_close rfp0_def)

text \<open>
  C3, amended. Every RFP of every store reached from the empty store through the routes
  has a published\_at when its status is published. publishRFP sets the status to published
  and published\_at to now. createRFP with neither status nor published\_at in its body
  stores a draft without published\_at.
\<close>

theorem C3_published_has_published_at:
  "(\<forall>r\<in>set (rfps (run reqs init_state)). status r = Published \<longrightarrow> published_at r \<noteq> None)
   \<and> (\<forall>s' d. route_publishRFP now actor i s = Inr (s', d) \<longrightarrow>
          status d = Published \<and> published_at d = Some now)
   \<and> (\<forall>s' d. route_createRFP now actor b s = Inr (s', d) \<and> b_status b = None
               \<and> b_published_at b = None \<longrightarrow> status d = Draft \<and> published_at d = None)"
proof (intro conjI allI impI)
  show "\<forall>r\<in>set (rfps (run reqs init_state)). status r = Published \<longrightarrow> published_at r \<noteq> None"
    by (rule run_published_inv) (simp add: init_state_def)
  show "status d = Published" "published_at d = Some now"
    if "route_publishRFP now actor i s = Inr (s', d)" for s' d
    using that by (auto dest!: route_publishRFP_D publishRFP_shape)
  show "status d = Draft" "published_at d = None"
    if "route_createRFP now actor b s = Inr (s', d) \<and> b_status b = None \<and> b_published_at b = None"
    for s' d
    using that by (auto dest!: route_createRFP_D createRFP_shape)
qed

theorem C3_published_has_published_at_witness:
  "rfp0\<lparr>status := Published, published_at := Some 20\<rparr> \<in> set (rfps (run [(10, Some buyer1, CreateRFP rfp_body0), (20, Some buyer1, PublishRFP 0)] init_state))
   \<and> status (rfp0\<lparr>status := Published, published_at := Some 20\<rparr>) = Published
   \<and> published_at (rfp0\<lparr>status := Published, published_at := Some 20\<rparr>) \<noteq> None
   \<and> route_publishRFP 20 (Some buyer1) 0 st_draft
      = Inr (st_published, rfp0\<lparr>status := Published, published_at := Some 20\<rparr>)
   \<and> route_createRFP 10 (Some buyer1) rfp_body0 init_state = Inr (st_draft, rfp0)
   \<and> status rfp0 = Draft \<and> published_at rfp0 = None"
proof -
  let ?reqs = "[(10, Some buyer1, CreateRFP rfp_body0), (20, Some buyer1, PublishRFP 0)]"
  let ?p = "rfp0\<lparr>status := Published, published_at := Some 20\<rparr>"
  have r: "run ?reqs init_state = st_published"
    by (simp add: st_published_def st_draft_def)
  have m: "?p \<in> set (rfps (run ?reqs init_state))"
    unfolding r st_published_eq by simp
  have st: "status ?p = Published" by simp
  have pub: "route_publishRFP 20 (Some buyer1) 0 st_draft = Inr (st_published, ?p)"
    unfolding st_draft_eq st_published_eq by code_simp
  have cre: "route_createRFP 10 (Some buyer1) rfp_body0 init_state = Inr (st_draft, rfp0)"
    unfolding st_draft_eq by code_simp
  have b: "b_status rfp_body0 = None" "b_published_at rfp_body0 = None"
    by (simp_all add: rfp_body0_def)
  note t = C3_published_has_published_at [where reqs = ?reqs and now = 10 and actor = "Some buyer1"
      and b = rfp_body0 and s = init_state]
  note t2 = C3_published_has_published_at [where reqs = ?reqs and now = 20 and actor = "Some buyer1"
      and i = 0 and s = st_draft]
  from t m st have 1: "published_at ?p \<noteq> None" by blast
  from t cre b have 2: "status rfp0 = Draft \<and> published_at rfp0 = None" by blast
  from t2 pub have 3: "status ?p = Published \<and> published_at ?p = Some 20" by blast
  show ?thesis using m st 1 2 3 pub cre by simp
qed

text \<open>
  C5, as stated, fails: validateRFP admits the status cancelled in the body of create and of
  update, and both controllers store it.
\<close>

theorem C5_counterexample:
  "map status (rfps (run [(10, Some buyer1, CreateRFP (rfp_body0\<lparr>b_status := Some Cancelled\<rparr>))]
                      init_state)) = [Cancelled]
   \<and> map status (rfps (run [(10, Some buyer1, CreateRFP rfp_body0),
                            (20, Some buyer1, UpdateRFP 0 (rfp_body0\<lparr>b_status := Some Cancelled\<rparr>))]
                      init_state)) = [Cancelled]"
  by code_simp

text \<open>
  C5, amended. In every store reached from the empty store by requests of which no create
  and no update of an RFP carries the status cancelled in its body, no RFP is cancelled:
  publish, close, delete and the response and document routes never set that status.
\<close>

theorem C5_cancelled_only_from_body:
  assumes "\<forall>(now, actor, a)\<in>set reqs. \<not> sets_cancelled a"
  shows "\<forall>r\<in>set (rfps (run reqs init_state)). status r \<noteq> Cancelled"
  by (rule run_cancelled_inv [OF _ assms]) (simp add: init_state_def)

theorem C5_cancelled_only_from_body_witness:
  "Cancelled \<notin> set (map status (rfps (run reqs_close init_state)))
   \<and> map status (rfps (run reqs_close init_state)) = [Closed]"
proof -
  have h: "\<forall>(now, actor, a)\<in>set reqs_close. \<not> sets_cancelled a"
    by (simp add: reqs_close_def sets_cancelled_def rfp_body0_def)
  have "\<forall>r\<in>set (rfps (run reqs_close init_state)). status r \<noteq> Cancelled"
    by (rule C5_cancelled_only_from_body [OF h])
  then have 1: "Cancelled \<notin> set (map status (rfps (run reqs_close init_state)))"
    by auto
  have 2: "map status (rfps (run reqs_close init_state)) = [Closed]"
    by (simp add: run_reqs_close rfp0_def)
  show ?thesis using 1 2 by simp
qed

subsection \<open>The Response collection after a request\<close>

lemma map_update_first_const:
  "find P xs = Some r \<Longrightarrow> g d = g r \<Longrightarrow> map g (update_first P (\<lambda>_. d) xs) = map g xs"
  by (induction xs) (auto split: if_splits)

lemma distinct_map_delete_first:
  "distinct (map g xs) \<Longrightarrow> distinct (map g (delete_first P xs))"
  by (induction xs) (auto dest: set_delete_first)

lemma distinct_key_update_first:
  assumes "distinct (map k xs)" and "distinct (map g xs)"
    and "find (\<lambda>x. k x = i) xs = Some r" and "k d = i"
    and "\<forall>x\<in>set xs. k x \<noteq> i \<longrightarrow> g x \<noteq> g d"
  shows "distinct (map g (update_first (\<lambda>x. k x = i) (\<lambda>_. d) xs))"
  using assms
proof (induction xs)
  case Nil
  then show ?case by simp
next
  case (Cons x xs)
  show ?case
  proof (cases "k x = i")
    case True
    from Cons.prems(1) have "k x \<notin> k ` set xs" by simp
    with True have "\<forall>y\<in>set xs. k y \<noteq> i" by (metis imageI)
    with Cons.prems True show ?thesis by auto
  next
    case False
    with Cons.prems have f: "find (\<lambda>x. k x = i) xs = Some r" by simp
    have ih: "distinct (map g (update_first (\<lambda>x. k x = i) (\<lambda>_. d) xs))"
      using Cons.prems f by (intro Cons.IH) auto
    have "g x \<notin> g ` set (update_first (\<lambda>x. k x = i) (\<lambda>_. d) xs)"
    proof
      assume "g x \<in> g ` set (update_first (\<lambda>x. k x = i) (\<lambda>_. d) xs)"
      then obtain y where y: "y \<in> set (update_first (\<lambda>x. k x = i) (\<lambda>_. d) xs)" "g x = g y"
        by auto
      from y(1) have "y \<in> set xs \<or> y = d" by (auto dest: set_update_first)
      with y(2) Cons.prems False show False by auto
    qed
    with ih False show ?thesis by simp
  qed
qed

lemma rdocs_cases:
  "update_first (\<lambda>x. resp_oid x = j) (\<lambda>x. x\<lparr>rdocument_ids := g (rdocument_ids x)\<rparr>) (responses s)
     = responses s
   \<or> (\<exists>r. find_response j s = Some r
          \<and> update_first (\<lambda>x. resp_oid x = j) (\<lambda>x. x\<lparr>rdocument_ids := g (rdocument_ids x)\<rparr>)
               (responses s)
            = update_first (\<lambda>x. resp_oid x = j) (\<lambda>_. r\<lparr>rdocument_ids := g (rdocument_ids r)\<rparr>)
                (responses s))"
  unfolding find_response_def by (rule update_first_cases)

lemma responses_shape_same: "responses s' = responses s \<Longrightarrow> responses_shape now a s s'"
  by (simp add: responses_shape_def)

lemma responses_shape_updI:
  "find_response i s = Some r
   \<Longrightarrow> responses s' = update_first (\<lambda>x. resp_oid x = i) (\<lambda>_. d) (responses s)
   \<Longrightarrow> resp_oid d = resp_oid r
   \<Longrightarrow> rfp_id d = rfp_id r \<and> submitted_by d = submitted_by r \<or> \<not> index_clash d (responses s)
   \<Longrightarrow> responses_shape now a s s'"
  unfolding responses_shape_def by blast

lemma responses_shape_docs:
  assumes "responses s' = update_first (\<lambda>x. resp_oid x = j)
                            (\<lambda>x. x\<lparr>rdocument_ids := g (rdocument_ids x)\<rparr>) (responses s)"
  shows "responses_shape now a s s'"
  using rdocs_cases [of j g s]
proof (elim disjE exE conjE)
  assume "update_first (\<lambda>x. resp_oid x = j)
            (\<lambda>x. x\<lparr>rdocument_ids := g (rdocument_ids x)\<rparr>) (responses s) = responses s"
  with assms show ?thesis by (simp add: responses_shape_same)
next
  fix r
  assume r: "find_response j s = Some r"
    and "update_first (\<lambda>x. resp_oid x = j)
           (\<lambda>x. x\<lparr>rdocument_ids := g (rdocument_ids x)\<rparr>) (responses s)
         = update_first (\<lambda>x. resp_oid x = j)
             (\<lambda>_. r\<lparr>rdocument_ids := g (rdocument_ids r)\<rparr>) (responses s)"
  with assms have "responses s' = update_first (\<lambda>x. resp_oid x = j)
                               (\<lambda>_. r\<lparr>rdocument_ids := g (rdocument_ids r)\<rparr>) (responses s)"
    by simp
  then show ?thesis
    by (rule responses_shape_updI [OF r]) simp_all
qed

lemma exec_responses_shape: "exec now actor a s = Inr s' \<Longrightarrow> responses_shape now a s s'"
proof (cases a)
  case (CreateRFP b)
  then show "exec now actor a s = Inr s' \<Longrightarrow> ?thesis"
    by (auto simp: map_sum_fst_Inr intro: responses_shape_same dest!: route_createRFP_D createRFP_shape)
next
  case (UpdateRFP i b)
  then show "exec now actor a s = Inr s' \<Longrightarrow> ?thesis"
    by (auto simp: map_sum_fst_Inr intro: responses_shape_same dest!: route_updateRFP_D updateRFP_shape)
next
  case (DeleteRFP i)
  then show "exec now actor a s = Inr s' \<Longrightarrow> ?thesis"
    by (auto intro: responses_shape_same dest!: route_deleteRFP_D deleteRFP_shape)
next
  case (PublishRFP i)
  then show "exec now actor a s = Inr s' \<Longrightarrow> ?thesis"
    by (auto simp: map_sum_fst_Inr intro: responses_shape_same dest!: route_publishRFP_D publishRFP_shape)
next
  case (CloseRFP i)
  then show "exec now actor a s = Inr s' \<Longrightarrow> ?thesis"
    by (auto simp: map_sum_fst_Inr intro: responses_shape_same dest!: route_closeRFP_D closeRFP_shape)
next
  case (CreateResponse b)
  then show "exec now actor a s = Inr s' \<Longrightarrow> ?thesis"
    by (auto simp: map_sum_fst_Inr responses_shape_def dest!: route_createResponse_D createResponse_shape)
next
  case (UpdateResponse i b)
  assume e: "exec now actor a s = Inr s'"
  with UpdateResponse obtain d u where "updateResponse now u i (sanitizeResponse b) s = Inr (s', d)"
    by (auto simp: map_sum_fst_Inr dest!: route_updateResponse_D)
  from updateResponse_shape [OF this] obtain r where
    r: "find_response i s = Some r"
    and d: "d = response_pre_save now (rstatus (assign_response (sanitizeResponse b) r) \<noteq> rstatus r)
                 (assign_response (sanitizeResponse b) r)"
    and k: "rfp_id d \<noteq> rfp_id r \<or> submitted_by d \<noteq> submitted_by r \<longrightarrow> \<not> index_clash d (responses s)"
    and s': "responses s' = update_first (\<lambda>x. resp_oid x = i) (\<lambda>_. d) (responses s)"
    by blast
  from d have "resp_oid d = resp_oid r" by simp
  with r s' k show ?thesis
    by (intro responses_shape_updI [OF r s']) auto
next
  case (DeleteResponse i)
  then show "exec now actor a s = Inr s' \<Longrightarrow> ?thesis"
    by (auto simp: responses_shape_def dest!: route_deleteResponse_D deleteResponse_shape)
next
  case (SubmitResponse i)
  assume e: "exec now actor a s = Inr s'"
  with SubmitResponse obtain d u where "submitResponse now u i s = Inr (s', d)"
    by (auto simp: map_sum_fst_Inr dest!: route_submitResponse_D)
  from submitResponse_shape [OF this] obtain r where
    r: "find_response i s = Some r"
    and d: "d = r\<lparr>rstatus := Submitted, submitted_at := Some now\<rparr>"
    and s': "responses s' = update_first (\<lambda>x. resp_oid x = i) (\<lambda>_. d) (responses s)"
    by blast
  show ?thesis
    by (rule responses_shape_updI [OF r s']) (simp_all add: d)
next
  case (ReviewResponse i b)
  assume e: "exec now actor a s = Inr s'"
  with ReviewResponse obtain d u b' where "reviewResponse now u i b' s = Inr (s', d)"
    by (auto simp: map_sum_fst_Inr dest!: route_reviewResponse_D)
  from reviewResponse_shape [OF this] obtain r where
    r: "find_response i s = Some r"
    and d: "d = response_pre_save now (rv_status b' \<noteq> rstatus r)
               (r\<lparr>rstatus := rv_status b', reviewer_notes := map_option trim (rv_reviewer_notes b'),
                  reviewed_at := Some now\<rparr>)"
    and s': "responses s' = update_first (\<lambda>x. resp_oid x = i) (\<lambda>_. d) (responses s)"
    by blast
  show ?thesis
    by (rule responses_shape_updI [OF r s']) (simp_all add: d)
next
  case (UploadDocument f b)
  then show "exec now actor a s = Inr s' \<Longrightarrow> ?thesis"
    by (auto simp: map_sum_fst_Inr intro: responses_shape_same responses_shape_docs [where g = "\<lambda>ds. ds @ [d]" for d] dest!: route_uploadDocument_D uploadDocument_shape split: option.splits)
next
  case (DeleteDocument i)
  then show "exec now actor a s = Inr s' \<Longrightarrow> ?thesis"
    by (auto intro: responses_shape_same responses_shape_docs [where g = "removeAll d" for d] dest!: route_deleteDocument_D deleteDocument_shape split: option.splits)
qed

subsection \<open>The invariant of the store\<close>

lemma find_snoc:
  "find P (xs @ [d]) = (case find P xs of None \<Rightarrow> (if P d then Some d else None) | Some x \<Rightarrow> Some x)"
  by (induction xs) auto

lemma find_update_first_const:
  "k d = i \<Longrightarrow>
   find (\<lambda>x. k x = j) (update_first (\<lambda>x. k x = i) (\<lambda>_. d) xs)
   = (if j = i then (case find (\<lambda>x. k x = i) xs of None \<Rightarrow> None | Some y \<Rightarrow> Some d)
      else find (\<lambda>x. k x = j) xs)"
  by (induction xs) auto

lemma find_update_first_fun:
  "\<forall>x. k (f x) = k x \<Longrightarrow>
   find (\<lambda>x. k x = j) (update_first (\<lambda>x. k x = i) f xs)
   = (if j = i then map_option f (find (\<lambda>x. k x = i) xs) else find (\<lambda>x. k x = j) xs)"
  by (induction xs) auto

lemma find_delete_first:
  "distinct (map k xs) \<Longrightarrow>
   find (\<lambda>x. k x = j) (delete_first (\<lambda>x. k x = i) xs)
   = (if j = i then None else find (\<lambda>x. k x = j) xs)"
proof (induction xs)
  case Nil
  then show ?case by simp
next
  case (Cons x xs)
  then have "k x \<notin> k ` set xs" by simp
  then have "\<forall>y\<in>set xs. k y \<noteq> k x" by (metis imageI)
  with Cons show ?case by (auto simp: find_None_iff)
qed

lemma bound_map_eq:
  assumes "map k ys = map k xs" and "\<forall>r\<in>set xs. k r < (n::nat)" and "n \<le> n'"
  shows "\<forall>r\<in>set ys. k r < n'"
proof
  fix r
  assume "r \<in> set ys"
  then have "k r \<in> set (map k ys)" by simp
  then have "k r \<in> set (map k xs)" by (simp only: assms(1))
  then obtain y where "y \<in> set xs" "k y = k r" by auto
  with assms(2,3) show "k r < n'" by fastforce
qed

lemma wf_init: "wf_state init_state"
  by (simp add: wf_state_def init_state_def)

lemma rfps_shape_wf:
  assumes sh: "rfps_shape now a s s'" and n: "next_id s \<le> next_id s'"
    and d: "distinct (map rfp_oid (rfps s))" and b: "\<forall>r\<in>set (rfps s). rfp_oid r < next_id s"
  shows "distinct (map rfp_oid (rfps s')) \<and> (\<forall>r\<in>set (rfps s'). rfp_oid r < next_id s')"
  using sh unfolding rfps_shape_def
proof (elim disjE exE conjE)
  assume "rfps s' = rfps s"
  with n d b show ?thesis by fastforce
next
  fix bd dd
  assume "rfps s' = rfps s @ [dd]" "rfp_oid dd = next_id s" "next_id s' = Suc (next_id s)"
  with d b show ?thesis by fastforce
next
  fix i r dd
  assume r: "find_rfp i s = Some r"
    and e: "rfps s' = update_first (\<lambda>x. rfp_oid x = i) (\<lambda>_. dd) (rfps s)"
    and ok: "rfp_ok now a r dd"
  from ok have "rfp_oid dd = rfp_oid r" by (simp add: rfp_ok_def)
  with r have m: "map rfp_oid (rfps s') = map rfp_oid (rfps s)"
    unfolding e find_rfp_def by (intro map_update_first_const)
  have "\<forall>r\<in>set (rfps s'). rfp_oid r < next_id s'"
    by (rule bound_map_eq [OF m b n])
  then show ?thesis using d m by simp
next
  fix i
  assume e: "rfps s' = delete_first (\<lambda>x. rfp_oid x = i) (rfps s)"
  have "\<forall>r\<in>set (rfps s'). rfp_oid r < next_id s'"
    using b n unfolding e by (fastforce dest: set_delete_first)
  then show ?thesis using d unfolding e by (simp add: distinct_map_delete_first)
qed

lemma responses_shapeE:
  assumes "responses_shape now a s s'"
  obtains
    (same) "responses s' = responses s"
  | (insert) d where "responses s' = responses s @ [d]" "resp_oid d = next_id s"
      "next_id s' = Suc (next_id s)"
      "\<not> list_ex (\<lambda>x. rfp_id x = rfp_id d \<and> submitted_by x = submitted_by d) (responses s)"
  | (replace) i r d where "find_response i s = Some r"
      "responses s' = update_first (\<lambda>x. resp_oid x = i) (\<lambda>_. d) (responses s)"
      "resp_oid d = resp_oid r"
      "rfp_id d = rfp_id r \<and> submitted_by d = submitted_by r \<or> \<not> index_clash d (responses s)"
  | (delete) i where "responses s' = delete_first (\<lambda>x. resp_oid x = i) (responses s)"
  using assms unfolding responses_shape_def by blast

lemma responses_shape_wf:
  assumes sh: "responses_shape now a s s'" and n: "next_id s \<le> next_id s'"
    and d: "distinct (map resp_oid (responses s))"
    and b: "\<forall>r\<in>set (responses s). resp_oid r < next_id s"
    and k: "distinct (map (\<lambda>r. (rfp_id r, submitted_by r)) (responses s))"
  shows "distinct (map resp_oid (responses s')) \<and> (\<forall>r\<in>set (responses s'). resp_oid r < next_id s')
       \<and> distinct (map (\<lambda>r. (rfp_id r, submitted_by r)) (responses s'))"
  using sh
proof (cases rule: responses_shapeE)
  case same
  with n d b k show ?thesis by fastforce
next
  case (insert dd)
  from insert(4)
  have "(rfp_id dd, submitted_by dd) \<notin> (\<lambda>r. (rfp_id r, submitted_by r)) ` set (responses s)"
    by (auto simp: list_ex_iff)
  with d b k insert(1,2,3) show ?thesis by fastforce
next
  case (replace i r dd)
  note r = replace(1) and e = replace(2) and o = replace(3) and c = replace(4)
  from r have ri: "resp_oid r = i" by (auto dest: find_response_oid)
  from r o have m: "map resp_oid (responses s') = map resp_oid (responses s)"
    unfolding e find_response_def by (intro map_update_first_const) simp_all
  have b': "\<forall>r\<in>set (responses s'). resp_oid r < next_id s'"
    by (rule bound_map_eq [OF m b n])
  have "distinct (map (\<lambda>r. (rfp_id r, submitted_by r)) (responses s'))"
  proof (cases "rfp_id dd = rfp_id r \<and> submitted_by dd = submitted_by r")
    case True
    with r have "map (\<lambda>r. (rfp_id r, submitted_by r)) (responses s')
               = map (\<lambda>r. (rfp_id r, submitted_by r)) (responses s)"
      unfolding e find_response_def by (intro map_update_first_const) simp_all
    with k show ?thesis by simp
  next
    case False
    with c have "\<not> index_clash dd (responses s)" by simp
    then have "\<forall>x\<in>set (responses s). resp_oid x \<noteq> i \<longrightarrow>
                 (rfp_id x, submitted_by x) \<noteq> (rfp_id dd, submitted_by dd)"
      using o ri by (auto simp: index_clash_def list_ex_iff)
    then show ?thesis
      unfolding e using d k r o ri
      by (intro distinct_key_update_first [where r = r]) (simp_all add: find_response_def)
  qed
  with b' d m show ?thesis by simp
next
  case (delete i)
  note e = delete(1)
  have "\<forall>r\<in>set (responses s'). resp_oid r < next_id s'"
    using b n unfolding e by (fastforce dest: set_delete_first)
  then show ?thesis using d k unfolding e by (simp add: distinct_map_delete_first)
qed

lemma wf_exec:
  assumes "wf_state s" and e: "exec now actor a s = Inr s'"
  shows "wf_state s'"
  using assms(1) rfps_shape_wf [OF exec_rfps_shape [OF e] exec_next_id [OF e]]
    responses_shape_wf [OF exec_responses_shape [OF e] exec_next_id [OF e]]
  unfolding wf_state_def by blast

lemma wf_step: "wf_state s \<Longrightarrow> wf_state (step now actor a s)"
  by (cases rule: step_cases [of now actor a s]) (auto dest: wf_exec)

lemma wf_run: "wf_state s \<Longrightarrow> wf_state (run reqs s)"
proof (induction reqs arbitrary: s)
  case Nil
  then show ?case by simp
next
  case (Cons q reqs)
  obtain now actor a where q: "q = (now, actor, a)" by (cases q) auto
  show ?case unfolding q run.simps
    by (rule Cons.IH) (rule wf_step [OF Cons.prems])
qed

subsection \<open>The response counter along a run\<close>

lemma rfps_shapeE:
  assumes "rfps_shape now a s s'"
  obtains
    (same) "rfps s' = rfps s"
  | (insert) b d where "a = CreateRFP b" "rfps s' = rfps s @ [d]" "rfp_oid d = next_id s"
      "next_id s' = Suc (next_id s)"
  | (replace) i r d where "find_rfp i s = Some r"
      "rfps s' = update_first (\<lambda>x. rfp_oid x = i) (\<lambda>_. d) (rfps s)" "rfp_ok now a r d"
  | (delete) i where "rfps s' = delete_first (\<lambda>x. rfp_oid x = i) (rfps s)"
  using assms unfolding rfps_shape_def by blast

lemma exec_count_mono:
  assumes wf: "wf_state s" and e: "exec now actor a s = Inr s'"
    and ns: "\<not> sets_response_count a"
    and f: "find_rfp j s = Some r" and f': "find_rfp j s' = Some r'"
  shows "response_count r \<le> response_count r'"
  using exec_rfps_shape [OF e]
proof (cases rule: rfps_shapeE)
  case same
  with f f' show ?thesis by (simp add: find_rfp_def)
next
  case (insert b d)
  with f f' show ?thesis by (simp add: find_rfp_def find_snoc)
next
  case (replace i r0 d)
  from replace(1) have i: "rfp_oid r0 = i" by (auto dest: find_rfp_oid)
  from replace(3) i have d: "rfp_oid d = i" by (simp add: rfp_ok_def)
  show ?thesis
  proof (cases "j = i")
    case True
    with f f' replace(1,2) d have "r' = d" "r = r0"
      by (simp_all add: find_rfp_def find_update_first_const)
    with replace(3) ns show ?thesis
      by (auto simp: rfp_ok_def sets_response_count_def)
  next
    case False
    with f f' replace(2) d show ?thesis
      by (simp add: find_rfp_def find_update_first_const)
  qed
next
  case (delete i)
  from wf have "distinct (map rfp_oid (rfps s))" by (simp add: wf_state_def)
  with f f' delete show ?thesis
    by (auto simp: find_rfp_def find_delete_first split: if_splits)
qed

lemma exec_find_none:
  assumes wf: "wf_state s" and e: "exec now actor a s = Inr s'"
    and f: "find_rfp j s = None" and b: "j < next_id s"
  shows "find_rfp j s' = None"
  using exec_rfps_shape [OF e]
proof (cases rule: rfps_shapeE)
  case same
  with f show ?thesis by (simp add: find_rfp_def)
next
  case (insert bd d)
  with f b show ?thesis by (simp add: find_rfp_def find_snoc)
next
  case (replace i r0 d)
  from replace(1) have i: "rfp_oid r0 = i" by (auto dest: find_rfp_oid)
  from replace(3) i have d: "rfp_oid d = i" by (simp add: rfp_ok_def)
  from f replace(1,2) d show ?thesis
    by (auto simp: find_rfp_def find_update_first_const)
next
  case (delete i)
  from wf have "distinct (map rfp_oid (rfps s))" by (simp add: wf_state_def)
  with f delete show ?thesis
    by (auto simp: find_rfp_def find_delete_first)
qed

lemma step_next_id: "next_id s \<le> next_id (step now actor a s)"
  by (cases rule: step_cases [of now actor a s]) (auto dest: exec_next_id)

lemma run_find_none:
  "wf_state s \<Longrightarrow> find_rfp j s = None \<Longrightarrow> j < next_id s \<Longrightarrow> find_rfp j (run reqs s) = None"
proof (induction reqs arbitrary: s)
  case Nil
  then show ?case by simp
next
  case (Cons q reqs)
  obtain now actor a where q: "q = (now, actor, a)" by (cases q) auto
  have 1: "wf_state (step now actor a s)" by (rule wf_step [OF Cons.prems(1)])
  have 2: "find_rfp j (step now actor a s) = None"
    using Cons.prems by (cases rule: step_cases [of now actor a s]) (auto dest: exec_find_none)
  have 3: "j < next_id (step now actor a s)"
    using Cons.prems(3) step_next_id [of s now actor a] by simp
  show ?case unfolding q run.simps by (rule Cons.IH [OF 1 2 3])
qed

lemma run_count_mono:
  "wf_state s \<Longrightarrow> \<forall>(now, actor, a)\<in>set reqs. \<not> sets_response_count a \<Longrightarrow>
   find_rfp j s = Some r \<Longrightarrow> find_rfp j (run reqs s) = Some r' \<Longrightarrow>
   response_count r \<le> response_count r'"
proof (induction reqs arbitrary: s r)
  case Nil
  then show ?case by simp
next
  case (Cons q reqs)
  obtain now actor a where q: "q = (now, actor, a)" by (cases q) auto
  let ?s1 = "step now actor a s"
  from Cons.prems(2) q have a: "\<not> sets_response_count a"
    and rest: "\<forall>(now, actor, a)\<in>set reqs. \<not> sets_response_count a" by auto
  have wf1: "wf_state ?s1" by (rule wf_step [OF Cons.prems(1)])
  from Cons.prems(4) have f': "find_rfp j (run reqs ?s1) = Some r'" by (simp add: q)
  from Cons.prems(1,3) have "j < next_id s"
    by (auto simp: wf_state_def dest: find_rfp_oid)
  then have b1: "j < next_id ?s1" using step_next_id [of s now actor a] by simp
  show ?case
  proof (cases "find_rfp j ?s1")
    case None
    from run_find_none [OF wf1 None b1] f' show ?thesis by simp
  next
    case (Some r1)
    have "response_count r \<le> response_count r1"
      using Some Cons.prems(3)
      by (cases rule: step_cases [of now actor a s])
         (auto dest: exec_count_mono [OF Cons.prems(1) _ a])
    also have "response_count r1 \<le> response_count r'"
      by (rule Cons.IH [OF wf1 rest Some f'])
    finally show ?thesis .
  qed
qed

lemma rfp_count_inc:
  assumes "rfps s' = update_first (\<lambda>x. rfp_oid x = i)
                       (\<lambda>x. x\<lparr>response_count := js_inc (response_count x)\<rparr>) (rfps s)"
  shows "rfp_count j s' = (if j = i then map_option js_inc (rfp_count j s) else rfp_count j s)"
  unfolding rfp_count_def find_rfp_def assms
  by (simp add: find_update_first_fun option.map_comp comp_def)

subsection \<open>The response counter\<close>

lemma create_counts:
  assumes "route_createResponse now actor b s = Inr (s', d)" and "rb_status b = Some Submitted"
  shows "(\<exists>c. rfp_count (rfp_id d) s = Some c \<and> rfp_count (rfp_id d) s' = Some (js_inc c))
       \<and> (\<forall>j. j \<noteq> rfp_id d \<longrightarrow> rfp_count j s' = rfp_count j s)"
proof -
  from assms(1) obtain u where "createResponse now u (sanitizeResponse b) s = Inr (s', d)"
    by (auto dest: route_createResponse_D)
  from createResponse_shape [OF this] assms(2) obtain p where
    p: "find_rfp (rfp_id d) s = Some p"
    and e: "rfps s' = update_first (\<lambda>x. rfp_oid x = rfp_id d)
                        (\<lambda>x. x\<lparr>response_count := js_inc (response_count x)\<rparr>) (rfps s)"
    by auto
  from p show ?thesis
    by (simp add: rfp_count_inc [OF e]) (simp add: rfp_count_def)
qed

lemma update_counts:
  assumes "route_updateResponse now actor i b s = Inr (s', d)" and "find_response i s = Some r"
    and "rstatus r = RDraft" and "rstatus d = Submitted"
  shows "rfp_count (rfp_id d) s' = map_option js_inc (rfp_count (rfp_id d) s)
       \<and> (\<forall>j. j \<noteq> rfp_id d \<longrightarrow> rfp_count j s' = rfp_count j s)"
proof -
  from assms(1) obtain u where "updateResponse now u i (sanitizeResponse b) s = Inr (s', d)"
    by (auto dest: route_updateResponse_D)
  from updateResponse_shape [OF this] assms(2,3,4)
  have e: "rfps s' = update_first (\<lambda>x. rfp_oid x = rfp_id d)
                        (\<lambda>x. x\<lparr>response_count := js_inc (response_count x)\<rparr>) (rfps s)"
    by auto
  show ?thesis
    by (simp add: rfp_count_inc [OF e])
qed

lemma submit_counts:
  assumes "route_submitResponse now actor i s = Inr (s', d)"
  shows "(\<exists>c. rfp_count (rfp_id d) s = Some c \<and> rfp_count (rfp_id d) s' = Some (js_inc c))
       \<and> (\<forall>j. j \<noteq> rfp_id d \<longrightarrow> rfp_count j s' = rfp_count j s)"
proof -
  from assms(1) obtain u where "submitResponse now u i s = Inr (s', d)"
    by (auto dest: route_submitResponse_D)
  from submitResponse_shape [OF this] obtain p where
    p: "find_rfp (rfp_id d) s = Some p"
    and e: "rfps s' = update_first (\<lambda>x. rfp_oid x = rfp_id d)
                        (\<lambda>x. x\<lparr>response_count := js_inc (response_count x)\<rparr>) (rfps s)"
    by auto
  from p show ?thesis
    by (simp add: rfp_count_inc [OF e]) (simp add: rfp_count_def)
qed

lemma delete_counts:
  "route_deleteResponse actor i s = Inr s' \<Longrightarrow> rfps s' = rfps s"
  by (auto dest!: route_deleteResponse_D deleteResponse_shape)

lemma run_counts:
  assumes "\<forall>(now, actor, a)\<in>set reqs. \<not> sets_response_count a"
    and "rfp_count j (run reqs0 init_state) = Some c"
    and "rfp_count j (run reqs (run reqs0 init_state)) = Some c'"
  shows "c \<le> c'"
proof -
  from assms(2) obtain r where r: "find_rfp j (run reqs0 init_state) = Some r" "response_count r = c"
    by (auto simp: rfp_count_def)
  from assms(3) obtain r' where r': "find_rfp j (run reqs (run reqs0 init_state)) = Some r'"
    "response_count r' = c'"
    by (auto simp: rfp_count_def)
  have "wf_state (run reqs0 init_state)" by (rule wf_run [OF wf_init])
  from run_count_mono [OF this assms(1) r(1) r'(1)] r(2) r'(2) show ?thesis by simp
qed

text \<open>
  C1, as stated, fails: updateRFP copies every key of the body onto the RFP, response\_count
  included, and validateRFP has no rule for that key. In \<open>st_submitted\<close> the counter of RFP 0
  is 1; after its owner sends PUT /api/rfps/0 with response\_count 0 it is 0.
\<close>

theorem C1_counterexample:
  "rfp_count 0 st_submitted = Some 1
   \<and> rfp_count 0 (step 50 (Some buyer1) (UpdateRFP 0 (rfp_body0\<lparr>b_response_count := Some 0\<rparr>))
                    st_submitted) = Some 0"
  unfolding st_submitted_eq by code_simp

text \<open>
  C1, amended. A create with status submitted in its body, an update that takes a response
  from draft to submitted, and a submit each leave every counter but that of the RFP of
  the response as it is, never lower that counter, and raise it by exactly one when it lies
  from \<open>- (2 ^ 53)\<close> up to \<open>2 ^ 53 - 1\<close>, the range in which adding one is exact; deleting
  a response leaves the RFP collection as it is; and along every run from a reached store
  in which no update of an RFP carries a response\_count in its body, the counter of an RFP
  never decreases.
\<close>

theorem C1_response_count:
  "(\<forall>s' d. route_createResponse now actor b s = Inr (s', d) \<and> rb_status b = Some Submitted \<longrightarrow>
      (\<exists>c c'. rfp_count (rfp_id d) s = Some c \<and> rfp_count (rfp_id d) s' = Some c' \<and> c \<le> c'
             \<and> (- (2 ^ 53) \<le> c \<and> c < 2 ^ 53 \<longrightarrow> c' = c + 1))
      \<and> (\<forall>j. j \<noteq> rfp_id d \<longrightarrow> rfp_count j s' = rfp_count j s))
   \<and> (\<forall>s' d r. route_updateResponse now actor i b s = Inr (s', d) \<and> find_response i s = Some r
         \<and> rstatus r = RDraft \<and> rstatus d = Submitted \<longrightarrow>
      (rfp_count (rfp_id d) s = None \<longrightarrow> rfp_count (rfp_id d) s' = None)
      \<and> (\<forall>c. rfp_count (rfp_id d) s = Some c \<longrightarrow>
            (\<exists>c'. rfp_count (rfp_id d) s' = Some c' \<and> c \<le> c'
                \<and> (- (2 ^ 53) \<le> c \<and> c < 2 ^ 53 \<longrightarrow> c' = c + 1)))
      \<and> (\<forall>j. j \<noteq> rfp_id d \<longrightarrow> rfp_count j s' = rfp_count j s))
   \<and> (\<forall>s' d. route_submitResponse now actor i s = Inr (s', d) \<longrightarrow>
      (\<exists>c c'. rfp_count (rfp_id d) s = Some c \<and> rfp_count (rfp_id d) s' = Some c' \<and> c \<le> c'
             \<and> (- (2 ^ 53) \<le> c \<and> c < 2 ^ 53 \<longrightarrow> c' = c + 1))
      \<and> (\<forall>j. j \<noteq> rfp_id d \<longrightarrow> rfp_count j s' = rfp_count j s))
   \<and> (\<forall>s'. route_deleteResponse actor i s = Inr s' \<longrightarrow> rfps s' = rfps s)
   \<and> ((\<forall>(now, actor, a)\<in>set reqs. \<not> sets_response_count a) \<longrightarrow>
      (\<forall>c c'. rfp_count j (run reqs0 init_state) = Some c
             \<and> rfp_count j (run reqs (run reqs0 init_state)) = Some c' \<longrightarrow> c \<le> c'))"
proof (intro conjI allI impI)
  fix s' d
  assume a: "route_createResponse now actor b s = Inr (s', d) \<and> rb_status b = Some Submitted"
  then obtain c where "rfp_count (rfp_id d) s = Some c" "rfp_count (rfp_id d) s' = Some (js_inc c)"
    using create_counts [of now actor b s s' d] by blast
  then show "\<exists>c c'. rfp_count (rfp_id d) s = Some c \<and> rfp_count (rfp_id d) s' = Some c' \<and> c \<le> c'
             \<and> (- (2 ^ 53) \<le> c \<and> c < 2 ^ 53 \<longrightarrow> c' = c + 1)"
    using js_inc_ge [of c] js_inc_exact [of c] by blast
  fix j assume "j \<noteq> rfp_id d"
  with a show "rfp_count j s' = rfp_count j s"
    using create_counts [of now actor b s s' d] by blast
next
  fix s' d r
  assume a: "route_updateResponse now actor i b s = Inr (s', d) \<and> find_response i s = Some r
         \<and> rstatus r = RDraft \<and> rstatus d = Submitted"
  then have e: "rfp_count (rfp_id d) s' = map_option js_inc (rfp_count (rfp_id d) s)"
    using update_counts [of now actor i b s s' d r] by blast
  show "rfp_count (rfp_id d) s' = None" if "rfp_count (rfp_id d) s = None"
    using e that by simp
  show "\<exists>c'. rfp_count (rfp_id d) s' = Some c' \<and> c \<le> c'
            \<and> (- (2 ^ 53) \<le> c \<and> c < 2 ^ 53 \<longrightarrow> c' = c + 1)"
    if "rfp_count (rfp_id d) s = Some c" for c
    using e that js_inc_ge [of c] js_inc_exact [of c] by simp
  fix j assume "j \<noteq> rfp_id d"
  with a show "rfp_count j s' = rfp_count j s"
    using update_counts [of now actor i b s s' d r] by blast
next
  fix s' d
  assume a: "route_submitResponse now actor i s = Inr (s', d)"
  then obtain c where "rfp_count (rfp_id d) s = Some c" "rfp_count (rfp_id d) s' = Some (js_inc c)"
    using submit_counts [of now actor i s s' d] by blast
  then show "\<exists>c c'. rfp_count (rfp_id d) s = Some c \<and> rfp_count (rfp_id d) s' = Some c' \<and> c \<le> c'
             \<and> (- (2 ^ 53) \<le> c \<and> c < 2 ^ 53 \<longrightarrow> c' = c + 1)"
    using js_inc_ge [of c] js_inc_exact [of c] by blast
  fix j assume "j \<noteq> rfp_id d"
  with a show "rfp_count j s' = rfp_count j s"
    using submit_counts [of now actor i s s' d] by blast
next
  fix s'
  assume "route_deleteResponse actor i s = Inr s'"
  then show "rfps s' = rfps s" by (rule delete_counts)
next
  fix c c'
  assume "\<forall>(now, actor, a)\<in>set reqs. \<not> sets_response_count a"
    and "rfp_count j (run reqs0 init_state) = Some c
         \<and> rfp_count j (run reqs (run reqs0 init_state)) = Some c'"
  then show "c \<le> c'" using run_counts [of reqs j reqs0 c c'] by blast
qed

theorem C1_response_count_witness:
  "rfp_count 0 st_response = Some 0 \<and> - (2 ^ 53) \<le> (0::int) \<and> (0::int) < 2 ^ 53
   \<and> route_submitResponse 40 (Some supplier1) 1 st_response
      = Inr (st_submitted, response1\<lparr>rstatus := Submitted, submitted_at := Some 40\<rparr>)
   \<and> rfp_count 0 st_submitted = Some 1
   \<and> rfp_count 0 (run reqs_publish init_state) = Some 0
   \<and> rfp_count 0 (run reqs_submit (run reqs_publish init_state)) = Some 1"
proof -
  let ?d = "response1\<lparr>rstatus := Submitted, submitted_at := Some 40\<rparr>"
  have sub: "route_submitResponse 40 (Some supplier1) 1 st_response = Inr (st_submitted, ?d)"
    unfolding st_response_eq st_submitted_eq by code_simp
  have d: "rfp_id ?d = 0" by (simp add: response1_def)
  have c0: "rfp_count 0 st_response = Some 0"
    unfolding st_response_eq by code_simp
  from C1_response_count [where now = 40 and actor = "Some supplier1" and i = 1 and s = st_response]
    sub
  have "\<exists>c c'. rfp_count (rfp_id ?d) st_response = Some c
           \<and> rfp_count (rfp_id ?d) st_submitted = Some c' \<and> c \<le> c'
           \<and> (- (2 ^ 53) \<le> c \<and> c < 2 ^ 53 \<longrightarrow> c' = c + 1)"
    by blast
  with d c0 have c1: "rfp_count 0 st_submitted = Some 1" by auto
  have r0: "run reqs_publish init_state = st_published"
    by (simp add: reqs_publish_def st_published_def st_draft_def)
  have r1: "run reqs_submit st_published = st_submitted"
    by (simp add: reqs_submit_def st_submitted_def st_response_def)
  have p0: "rfp_count 0 st_published = Some 0"
    unfolding st_published_eq by code_simp
  have h: "\<forall>(now, actor, a)\<in>set reqs_submit. \<not> sets_response_count a"
    by (simp add: reqs_submit_def sets_response_count_def)
  from C1_response_count [where reqs = reqs_submit and reqs0 = reqs_publish and j = 0] h
  have "\<forall>c c'. rfp_count 0 (run reqs_publish init_state) = Some c
             \<and> rfp_count 0 (run reqs_submit (run reqs_publish init_state)) = Some c' \<longrightarrow> c \<le> c'"
    by blast
  then have "(0::int) \<le> 1" using p0 c1 r0 r1 by simp
  show ?thesis using c0 sub c1 p0 r0 r1 by simp
qed

text \<open>
  The bound is needed: at \<open>2 ^ 53\<close> the sum of doubles is the counter itself. In the store
  \<open>st_response\<close> with the counter of RFP 0 set to \<open>2 ^ 53\<close>, submitting response 1 succeeds
  and the counter is still \<open>2 ^ 53\<close>.
\<close>

lemma submit_at_limit:
  "map response_count
     (rfps (step 40 (Some supplier1) (SubmitResponse 1)
        (st_response\<lparr>rfps := map (response_count_update (\<lambda>_. 2 ^ 53)) (rfps st_response)\<rparr>)))
   = [2 ^ 53]
   \<and> map rstatus
       (responses (step 40 (Some supplier1) (SubmitResponse 1)
          (st_response\<lparr>rfps := map (response_count_update (\<lambda>_. 2 ^ 53)) (rfps st_response)\<rparr>)))
     = [Submitted]"
  unfolding st_response_eq by code_simp

subsection \<open>One response per RFP and submitter\<close>

lemma response_key_fun: "response_key = (\<lambda>r. (rfp_id r, submitted_by r))"
  by (rule ext) (simp add: response_key_def)

lemma create_existing_fails:
  assumes "actor = Some u" and "rb_rfp_id b = Some rid"
    and "\<exists>x\<in>set (responses s). rfp_id x = rid \<and> submitted_by x = user_id u"
  shows "route_createResponse now actor b s \<noteq> Inr x"
proof
  assume "route_createResponse now actor b s = Inr x"
  then obtain u' where u': "actor = Some u'"
    and c: "createResponse now u' (sanitizeResponse b) s = Inr x"
    by (auto dest: route_createResponse_D)
  obtain s' d where x: "x = (s', d)" by (cases x)
  from createResponse_shape [OF c [unfolded x]] assms(2)
  have "\<not> list_ex (\<lambda>x. rfp_id x = rid \<and> submitted_by x = user_id u') (responses s)"
    by auto
  with assms(1,3) u' show False by (auto simp: list_ex_iff)
qed

lemma create_existing_error:
  assumes "actor = Some u" and "rb_rfp_id b = Some rid"
    and "\<exists>x\<in>set (responses s). rfp_id x = rid \<and> submitted_by x = user_id u"
    and "role u = Supplier" and "validateResponse_rules b"
    and "find_rfp rid s = Some p" and "status p = Published" and "\<not> deadline p < now"
  shows "route_createResponse now actor b s = Inl ResponseAlreadyExists"
  using assms
  by (auto simp: route_createResponse_def authorize_def validateResponse_def createResponse_def
                 list_ex_iff)

text \<open>
  C6, as stated, fails: in \<open>st_closed\<close> the supplier already has a response to RFP 0, which
  is closed; a second create is answered with Cannot respond to RFP, the status guard coming
  before the lookup of an existing response.
\<close>

theorem C6_counterexample:
  "map rfp_id (responses st_closed) = [0]
   \<and> map submitted_by (responses st_closed) = [user_id supplier1]
   \<and> rb_rfp_id response_body0 = Some 0
   \<and> route_createResponse 50 (Some supplier1) response_body0 st_closed = Inl CannotRespondToRFP"
  unfolding st_closed_eq by code_simp

text \<open>
  C6, amended. When a response of the caller to the RFP named in the body exists, creating a
  response never succeeds and leaves the store as it is; the answer is Response already
  exists when the request passes the earlier checks (the caller is a supplier, the body passes
  validateResponse, the RFP exists, is published and its deadline has not passed). In every
  store reached from the empty store no two responses share the pair (rfp\_id, submitted\_by).
\<close>

theorem C6_one_response_per_submitter:
  "(actor = Some u \<and> rb_rfp_id b = Some rid
      \<and> (\<exists>x\<in>set (responses s). rfp_id x = rid \<and> submitted_by x = user_id u) \<longrightarrow>
    (\<forall>x. route_createResponse now actor b s \<noteq> Inr x)
    \<and> step now actor (CreateResponse b) s = s
    \<and> (role u = Supplier \<and> validateResponse_rules b
        \<and> (\<exists>p. find_rfp rid s = Some p \<and> status p = Published \<and> \<not> deadline p < now) \<longrightarrow>
       route_createResponse now actor b s = Inl ResponseAlreadyExists))
   \<and> distinct (map response_key (responses (run reqs init_state)))"
proof (intro conjI impI allI)
  assume a: "actor = Some u \<and> rb_rfp_id b = Some rid
      \<and> (\<exists>x\<in>set (responses s). rfp_id x = rid \<and> submitted_by x = user_id u)"
  then have n: "route_createResponse now actor b s \<noteq> Inr x" for x
    using create_existing_fails [of actor u b rid s now x] by blast
  then show "\<And>x. route_createResponse now actor b s \<noteq> Inr x" .
  from n show "step now actor (CreateResponse b) s = s"
    by (cases "route_createResponse now actor b s") (auto simp: step_def)
  assume "role u = Supplier \<and> validateResponse_rules b
        \<and> (\<exists>p. find_rfp rid s = Some p \<and> status p = Published \<and> \<not> deadline p < now)"
  with a show "route_createResponse now actor b s = Inl ResponseAlreadyExists"
    using create_existing_error [of actor u b rid s _ now] by blast
next
  have "wf_state (run reqs init_state)" by (rule wf_run [OF wf_init])
  then show "distinct (map response_key (responses (run reqs init_state)))"
    by (simp add: wf_state_def response_key_fun)
qed

theorem C6_one_response_per_submitter_witness:
  "route_createResponse 35 (Some supplier1) response_body0 st_response = Inl ResponseAlreadyExists
   \<and> step 35 (Some supplier1) (CreateResponse response_body0) st_response = st_response
   \<and> map response_key (responses st_response) = [(0, 2)]
   \<and> distinct (map response_key (responses (run reqs_submit (run reqs_publish init_state))))"
proof -
  let ?p = "rfp0\<lparr>status := Published, published_at := Some 20\<rparr>"
  have a: "Some supplier1 = Some supplier1 \<and> rb_rfp_id response_body0 = Some 0
      \<and> (\<exists>x\<in>set (responses st_response). rfp_id x = 0 \<and> submitted_by x = user_id supplier1)"
    by (simp add: st_response_eq response_body0_def response1_def supplier1_def)
  have g1: "role supplier1 = Supplier" by (simp add: supplier1_def)
  have g2: "validateResponse_rules response_body0" by code_simp
  have g3: "find_rfp 0 st_response = Some ?p \<and> status ?p = Published \<and> \<not> deadline ?p < 35"
    by (simp add: st_response_eq find_rfp_def rfp0_def)
  from g1 g2 g3
  have g: "role supplier1 = Supplier \<and> validateResponse_rules response_body0
        \<and> (\<exists>p. find_rfp 0 st_response = Some p \<and> status p = Published \<and> \<not> deadline p < 35)"
    by blast
  note t = C6_one_response_per_submitter [where actor = "Some supplier1" and u = supplier1
      and b = response_body0 and rid = 0 and s = st_response and now = 35
      and reqs = "reqs_publish @ reqs_submit"]
  from t a g have 1: "route_createResponse 35 (Some supplier1) response_body0 st_response
      = Inl ResponseAlreadyExists" by blast
  from t a have 2: "step 35 (Some supplier1) (CreateResponse response_body0) st_response = st_response"
    by blast
  have 3: "map response_key (responses st_response) = [(0, 2)]"
    by (simp add: st_response_eq response_key_def response1_def)
  have r: "run (reqs_publish @ reqs_submit) init_state = run reqs_submit (run reqs_publish init_state)"
    by (simp add: reqs_publish_def reqs_submit_def)
  from t have 4: "distinct (map response_key (responses (run reqs_submit (run reqs_publish init_state))))"
    unfolding r by blast
  show ?thesis using 1 2 3 4 by simp
qed

subsection \<open>Attaching a document\<close>

text \<open>
  C7, as stated, fails: an upload of type attachment that names no parent is stored, and its
  identifier is appended to the document\_ids of no RFP and of no response.
\<close>

theorem C7_counterexample:
  "documents (step 50 (Some buyer1) (UploadDocument (Some file0) attachment_body) st_response)
     = [document2]
   \<and> doc_rfp_id document2 = None \<and> doc_response_id document2 = None
   \<and> map document_ids
        (rfps (step 50 (Some buyer1) (UploadDocument (Some file0) attachment_body) st_response))
      = [[]]
   \<and> map rdocument_ids
        (responses (step 50 (Some buyer1) (UploadDocument (Some file0) attachment_body) st_response))
      = [[]]"
  unfolding st_response_eq by code_simp

lemma upload_requires_parent:
  shows "ub_document_type b = RfpDocument \<and> ub_rfp_id b = None \<Longrightarrow>
           route_uploadDocument actor upl b s \<noteq> Inr x"
    and "ub_document_type b = ResponseDocument \<and> ub_response_id b = None \<Longrightarrow>
           route_uploadDocument actor upl b s \<noteq> Inr x"
    and "actor = Some u \<and> upl = Some f \<and> optional_text 500 (ub_description b)
         \<and> ub_document_type b = RfpDocument \<and> ub_rfp_id b = None \<Longrightarrow>
           route_uploadDocument actor upl b s = Inl RFPIdRequired"
    and "actor = Some u \<and> upl = Some f \<and> optional_text 500 (ub_description b)
         \<and> ub_document_type b = ResponseDocument \<and> ub_response_id b = None \<Longrightarrow>
           route_uploadDocument actor upl b s = Inl ResponseIdRequired"
  by (auto simp: route_uploadDocument_def authenticate_def uploadDocument_def
           split: option.splits if_splits)

lemma upload_links:
  assumes "route_uploadDocument actor upl b s = Inr (s', d)"
  shows "(doc_type d = RfpDocument \<longrightarrow> doc_rfp_id d \<noteq> None)
       \<and> (doc_type d = ResponseDocument \<longrightarrow> doc_response_id d \<noteq> None)
       \<and> documents s' = documents s @ [d]
       \<and> rfps s' = (case doc_rfp_id d of
                      None \<Rightarrow> rfps s
                    | Some j \<Rightarrow> update_first (\<lambda>x. rfp_oid x = j)
                                 (\<lambda>x. x\<lparr>document_ids := document_ids x @ [doc_oid d]\<rparr>) (rfps s))
       \<and> responses s' = (case doc_response_id d of
                           None \<Rightarrow> responses s
                         | Some j \<Rightarrow> update_first (\<lambda>x. resp_oid x = j)
                                      (\<lambda>x. x\<lparr>rdocument_ids := rdocument_ids x @ [doc_oid d]\<rparr>)
                                      (responses s))
       \<and> (\<forall>j. doc_rfp_id d = Some j \<longrightarrow>
             (\<exists>p. find_rfp j s = Some p \<and> Some (created_by p) = map_option user_id actor))
       \<and> (\<forall>j. doc_response_id d = Some j \<longrightarrow>
             (\<exists>r. find_response j s = Some r \<and> Some (submitted_by r) = map_option user_id actor))"
proof -
  from assms obtain u where u: "actor = Some u"
    and up: "uploadDocument u upl (b\<lparr>ub_description := map_option trim (ub_description b)\<rparr>) s
             = Inr (s', d)"
    by (auto dest: route_uploadDocument_D)
  note sh = uploadDocument_shape [OF up]
  from sh have a: "check_rfp_access u (ub_rfp_id b) s = None"
    and r: "check_response_access u (ub_response_id b) s = None" by simp_all
  from a have 1: "\<forall>j. ub_rfp_id b = Some j \<longrightarrow> (\<exists>p. find_rfp j s = Some p \<and> created_by p = user_id u)"
    by (auto simp: check_rfp_access_def split: option.splits if_splits)
  from r have 2: "\<forall>j. ub_response_id b = Some j \<longrightarrow>
                    (\<exists>r. find_response j s = Some r \<and> submitted_by r = user_id u)"
    by (auto simp: check_response_access_def split: option.splits if_splits)
  from sh 1 2 u show ?thesis by simp
qed

text \<open>
  C7, amended. An upload of type rfp\_document without rfp\_id, or of type response\_document
  without response\_id, never stores a document; for an authenticated caller with a file
  and a valid description the answer is RFP ID required, or Response ID required. When an
  upload succeeds, a document of type rfp\_document names an RFP and one of type
  response\_document names a response; the document is inserted, its identifier is appended
  to the document\_ids of the RFP it names and of the response it names, each of which the
  caller owns, and no other RFP or response changes.
\<close>

theorem C7_document_linkage:
  "(ub_document_type b = RfpDocument \<and> ub_rfp_id b = None \<longrightarrow>
      (\<forall>x. route_uploadDocument actor upl b s \<noteq> Inr x)
      \<and> (actor = Some u \<and> upl = Some f \<and> optional_text 500 (ub_description b) \<longrightarrow>
           route_uploadDocument actor upl b s = Inl RFPIdRequired))
   \<and> (ub_document_type b = ResponseDocument \<and> ub_response_id b = None \<longrightarrow>
      (\<forall>x. route_uploadDocument actor upl b s \<noteq> Inr x)
      \<and> (actor = Some u \<and> upl = Some f \<and> optional_text 500 (ub_description b) \<longrightarrow>
           route_uploadDocument actor upl b s = Inl ResponseIdRequired))
   \<and> (\<forall>s' d. route_uploadDocument actor upl b s = Inr (s', d) \<longrightarrow>
        (doc_type d = RfpDocument \<longrightarrow> doc_rfp_id d \<noteq> None)
        \<and> (doc_type d = ResponseDocument \<longrightarrow> doc_response_id d \<noteq> None)
        \<and> documents s' = documents s @ [d]
        \<and> rfps s' = (case doc_rfp_id d of
                       None \<Rightarrow> rfps s
                     | Some j \<Rightarrow> update_first (\<lambda>x. rfp_oid x = j)
                                  (\<lambda>x. x\<lparr>document_ids := document_ids x @ [doc_oid d]\<rparr>) (rfps s))
        \<and> responses s' = (case doc_response_id d of
                            None \<Rightarrow> responses s
                          | Some j \<Rightarrow> update_first (\<lambda>x. resp_oid x = j)
                                       (\<lambda>x. x\<lparr>rdocument_ids := rdocument_ids x @ [doc_oid d]\<rparr>)
                                       (responses s))
        \<and> (\<forall>j. doc_rfp_id d = Some j \<longrightarrow>
              (\<exists>p. find_rfp j s = Some p \<and> Some (created_by p) = map_option user_id actor))
        \<and> (\<forall>j. doc_response_id d = Some j \<longrightarrow>
              (\<exists>r. find_response j s = Some r \<and> Some (submitted_by r) = map_option user_id actor)))"
proof (intro conjI impI allI)
  show "route_uploadDocument actor upl b s \<noteq> Inr x"
    if "ub_document_type b = RfpDocument \<and> ub_rfp_id b = None" for x
    using that by (rule upload_requires_parent(1))
  show "route_uploadDocument actor upl b s \<noteq> Inr x"
    if "ub_document_type b = ResponseDocument \<and> ub_response_id b = None" for x
    using that by (rule upload_requires_parent(2))
  show "route_uploadDocument actor upl b s = Inl RFPIdRequired"
    if "ub_document_type b = RfpDocument \<and> ub_rfp_id b = None"
      and "actor = Some u \<and> upl = Some f \<and> optional_text 500 (ub_description b)"
    using that by (intro upload_requires_parent(3)) blast
  show "route_uploadDocument actor upl b s = Inl ResponseIdRequired"
    if "ub_document_type b = ResponseDocument \<and> ub_response_id b = None"
      and "actor = Some u \<and> upl = Some f \<and> optional_text 500 (ub_description b)"
    using that by (intro upload_requires_parent(4)) blast
next
  fix s' d
  assume a: "route_uploadDocument actor upl b s = Inr (s', d)"
  note l = upload_links [OF a]
  from l show "doc_type d = RfpDocument \<Longrightarrow> doc_rfp_id d \<noteq> None" by blast
  from l show "doc_type d = ResponseDocument \<Longrightarrow> doc_response_id d \<noteq> None" by blast
  from l show "documents s' = documents s @ [d]" by blast
  from l show "rfps s' = (case doc_rfp_id d of
                       None \<Rightarrow> rfps s
                     | Some j \<Rightarrow> update_first (\<lambda>x. rfp_oid x = j)
                                  (\<lambda>x. x\<lparr>document_ids := document_ids x @ [doc_oid d]\<rparr>) (rfps s))"
    by blast
  from l show "responses s' = (case doc_response_id d of
                            None \<Rightarrow> responses s
                          | Some j \<Rightarrow> update_first (\<lambda>x. resp_oid x = j)
                                       (\<lambda>x. x\<lparr>rdocument_ids := rdocument_ids x @ [doc_oid d]\<rparr>)
                                       (responses s))"
    by blast
  from l show "\<exists>p. find_rfp j s = Some p \<and> Some (created_by p) = map_option user_id actor"
    if "doc_rfp_id d = Some j" for j using that by blast
  from l show "\<exists>r. find_response j s = Some r \<and> Some (submitted_by r) = map_option user_id actor"
    if "doc_response_id d = Some j" for j using that by blast
qed


theorem C7_document_linkage_witness:
  "route_uploadDocument (Some buyer1) (Some file0)
     (attachment_body\<lparr>ub_document_type := RfpDocument\<rparr>) st_response = Inl RFPIdRequired
   \<and> route_uploadDocument (Some supplier1) (Some file0)
        (attachment_body\<lparr>ub_document_type := ResponseDocument\<rparr>) st_response
      = Inl ResponseIdRequired
   \<and> route_uploadDocument (Some buyer1) (Some file0)
        (attachment_body\<lparr>ub_document_type := RfpDocument, ub_rfp_id := Some 0\<rparr>) st_response
      = Inr (st_uploaded, document2\<lparr>doc_type := RfpDocument, doc_rfp_id := Some 0\<rparr>)
   \<and> doc_rfp_id (document2\<lparr>doc_type := RfpDocument, doc_rfp_id := Some 0\<rparr>) \<noteq> None
   \<and> documents st_uploaded
      = documents st_response @ [document2\<lparr>doc_type := RfpDocument, doc_rfp_id := Some 0\<rparr>]
   \<and> map document_ids (rfps st_uploaded) = [[2]]"
proof -
  let ?b1 = "attachment_body\<lparr>ub_document_type := RfpDocument\<rparr>"
  let ?b2 = "attachment_body\<lparr>ub_document_type := ResponseDocument\<rparr>"
  let ?b3 = "attachment_body\<lparr>ub_document_type := RfpDocument, ub_rfp_id := Some 0\<rparr>"
  let ?d = "document2\<lparr>doc_type := RfpDocument, doc_rfp_id := Some 0\<rparr>"
  have h1: "ub_document_type ?b1 = RfpDocument \<and> ub_rfp_id ?b1 = None"
    "Some buyer1 = Some buyer1 \<and> Some file0 = Some file0 \<and> optional_text 500 (ub_description ?b1)"
    by (simp_all add: attachment_body_def optional_text_def)
  have h2: "ub_document_type ?b2 = ResponseDocument \<and> ub_response_id ?b2 = None"
    "Some supplier1 = Some supplier1 \<and> Some file0 = Some file0
     \<and> optional_text 500 (ub_description ?b2)"
    by (simp_all add: attachment_body_def optional_text_def)
  from C7_document_linkage [where b = ?b1 and actor = "Some buyer1" and u = buyer1
      and upl = "Some file0" and f = file0 and s = st_response] h1
  have 1: "route_uploadDocument (Some buyer1) (Some file0) ?b1 st_response = Inl RFPIdRequired"
    by blast
  from C7_document_linkage [where b = ?b2 and actor = "Some supplier1" and u = supplier1
      and upl = "Some file0" and f = file0 and s = st_response] h2
  have 2: "route_uploadDocument (Some supplier1) (Some file0) ?b2 st_response
           = Inl ResponseIdRequired"
    by blast
  have up: "route_uploadDocument (Some buyer1) (Some file0) ?b3 st_response = Inr (st_uploaded, ?d)"
    unfolding st_response_eq by code_simp
  have t: "doc_type ?d = RfpDocument" by simp
  from C7_document_linkage [where b = ?b3 and actor = "Some buyer1" and upl = "Some file0"
      and s = st_response] up t
  have 3: "doc_rfp_id ?d \<noteq> None" and 4: "documents st_uploaded = documents st_response @ [?d]"
    by blast+
  have 5: "map document_ids (rfps st_uploaded) = [[2]]"
    by (simp add: st_uploaded_def)
  show ?thesis using 1 2 up 3 4 5 by simp
qed


subsection \<open>Updating a response\<close>






lemma index_clash_pre_save [simp]:
  "index_clash (response_pre_save now sm d) xs = index_clash d xs"
  by (simp add: index_clash_def)






end
